theory Spec2Isabelle
  imports Complex_Main
begin

section \<open>Host values: floats, payloads, errors\<close>

text \<open>
  The object model of \<^verbatim>\<open>obj_model.py\<close> wraps one host (Python) value per atom.
  A Python float is an IEEE double: the finite ones are represented by their exact
  rational value, next to negative zero, the two infinities and not-a-number.
  Every theorem below holds for all rationals, hence for those that are doubles.
\<close>

datatype pyfloat = Fin rat | NegZero | PosInf | NegInf | NaN

text \<open>The payload of an atom (its \<^verbatim>\<open>value\<close> attribute).\<close>

datatype pyval = PFloat pyfloat | PBool bool | PNone | PStr string

text \<open>
  The methods named by \<^verbatim>\<open>OP_TO_FUNC_MAP\<close>: \<^verbatim>\<open>add, sub, mul, div, mod, eq, ne, lt, gt,
  le, ge, _and, _or\<close>.
\<close>

datatype func = Add | Sub | Mul | Div | Mod | Eq | Ne | Lt | Gt | Le | Ge | And | Or

text \<open>
  Everything that stops a run. \<open>Abort msg\<close> is the call \<^verbatim>\<open>abort(msg)\<close>; the others are
  the exceptions the host raises.

  Modelled from the spec: \<^verbatim>\<open>abort\<close> comes from the module \<^verbatim>\<open>common\<close>, which is not part
  of the sources; by section 6 of the specification it takes a human-readable message,
  halts execution (non-recoverable) and surfaces the message.
\<close>

datatype err =
    Abort string
  | TypeError
  | KeyError string
  | AttributeError
  | RecursionError
  | ZeroDivisionError
  | IndexError

text \<open>
  What the host contributes and this development leaves open: the rounded float
  arithmetic (\<^verbatim>\<open>+ - * / %\<close> on two floats, which may raise), and the text \<^verbatim>\<open>str(x)\<close> of
  a finite float that is not an integer below \<open>10^16\<close> in magnitude.
\<close>

record host =
  float_arith :: "func \<Rightarrow> pyfloat \<Rightarrow> pyfloat \<Rightarrow> err + pyfloat"
  float_repr :: "rat \<Rightarrow> string"

subsection \<open>Strings of the host\<close>

text \<open>\<^verbatim>\<open>s.strip(chars)\<close>: drops the characters of \<open>chars\<close> from both ends of \<open>s\<close>.\<close>

definition strip :: "string \<Rightarrow> string \<Rightarrow> string" where
  "strip chars s =
     rev (dropWhile (\<lambda>c. c \<in> set chars) (rev (dropWhile (\<lambda>c. c \<in> set chars) s)))"

text \<open>\<^verbatim>\<open>s.startswith(p)\<close> and \<^verbatim>\<open>s.removeprefix(p)\<close>.\<close>

definition startswith :: "string \<Rightarrow> string \<Rightarrow> bool" where
  "startswith s p = (take (length p) s = p)"

definition removeprefix :: "string \<Rightarrow> string \<Rightarrow> string" where
  "removeprefix s p = (if startswith s p then drop (length p) s else s)"

text \<open>
  \<^verbatim>\<open>s.replace("{}", new)\<close>: a scan from the left that replaces every occurrence of the
  two characters and continues after the replaced pair.
\<close>

fun replace_braces :: "string \<Rightarrow> string \<Rightarrow> string" where
  "replace_braces [] new = []"
| "replace_braces [c] new = [c]"
| "replace_braces (c # d # cs) new =
     (if c = CHR ''{'' \<and> d = CHR ''}'' then new @ replace_braces cs new
      else c # replace_braces (d # cs) new)"

text \<open>Decimal digits of a natural number and of an integer, as \<^verbatim>\<open>str\<close> prints them.\<close>

definition digit_char :: "nat \<Rightarrow> char" where
  "digit_char d = ''0123456789'' ! d"

fun digits :: "nat \<Rightarrow> string" where
  "digits n = (if n < 10 then [digit_char n] else digits (n div 10) @ [digit_char (n mod 10)])"

definition str_int :: "int \<Rightarrow> string" where
  "str_int i = (if i < 0 then CHR ''-'' # digits (nat (- i)) else digits (nat i))"

text \<open>
  \<^verbatim>\<open>str(x)\<close> of a float: an integral value below \<open>10^16\<close> in magnitude prints as its
  integer followed by \<^verbatim>\<open>.0\<close>; the special values have fixed texts; the host gives the rest.
\<close>

definition str_float :: "host \<Rightarrow> pyfloat \<Rightarrow> string" where
  "str_float h x =
     (case x of
        Fin q \<Rightarrow>
          if of_int \<lfloor>q\<rfloor> = q \<and> \<bar>q\<bar> < 10 ^ 16 then str_int \<lfloor>q\<rfloor> @ ''.0'' else float_repr h q
      | NegZero \<Rightarrow> ''-0.0''
      | PosInf \<Rightarrow> ''inf''
      | NegInf \<Rightarrow> ''-inf''
      | NaN \<Rightarrow> ''nan'')"

text \<open>
  \<^verbatim>\<open>x % 1 == 0\<close> on a float: the remainder of a finite float by one is exact, so the
  test is true for the integral finite values (negative zero among them); the remainder
  of an infinity or of not-a-number is not-a-number, which equals nothing.
\<close>

definition mod1_is_zero :: "pyfloat \<Rightarrow> bool" where
  "mod1_is_zero x =
     (case x of Fin q \<Rightarrow> of_int \<lfloor>q\<rfloor> = q | NegZero \<Rightarrow> True | _ \<Rightarrow> False)"

subsection \<open>Comparing and testing payloads\<close>

text \<open>
  The position of a float on the extended number line; not-a-number has none.
  A Boolean payload is the number 0 or 1.
\<close>

definition float_key :: "pyfloat \<Rightarrow> (int \<times> rat) option" where
  "float_key x =
     (case x of
        Fin q \<Rightarrow> Some (0, q)
      | NegZero \<Rightarrow> Some (0, 0)
      | PosInf \<Rightarrow> Some (1, 0)
      | NegInf \<Rightarrow> Some (- 1, 0)
      | NaN \<Rightarrow> None)"

definition num_key :: "pyval \<Rightarrow> (int \<times> rat) option" where
  "num_key p =
     (case p of
        PFloat x \<Rightarrow> float_key x
      | PBool b \<Rightarrow> Some (0, if b then 1 else 0)
      | _ \<Rightarrow> None)"

definition is_num :: "pyval \<Rightarrow> bool" where
  "is_num p = (case p of PFloat _ \<Rightarrow> True | PBool _ \<Rightarrow> True | _ \<Rightarrow> False)"

text \<open>Strings are ordered lexicographically by character code.\<close>

fun str_lt :: "string \<Rightarrow> string \<Rightarrow> bool" where
  "str_lt [] [] = False"
| "str_lt [] (y # ys) = True"
| "str_lt (x # xs) [] = False"
| "str_lt (x # xs) (y # ys) =
     ((of_char x :: nat) < of_char y \<or> (x = y \<and> str_lt xs ys))"

text \<open>\<^verbatim>\<open>a == b\<close> on payloads: never raises; values of different kinds are unequal.\<close>

definition py_eq :: "pyval \<Rightarrow> pyval \<Rightarrow> bool" where
  "py_eq a b =
     (if is_num a \<and> is_num b then
        (case (num_key a, num_key b) of (Some j, Some k) \<Rightarrow> j = k | _ \<Rightarrow> False)
      else (case (a, b) of
              (PStr s, PStr t) \<Rightarrow> s = t
            | (PNone, PNone) \<Rightarrow> True
            | _ \<Rightarrow> False))"

text \<open>
  \<^verbatim>\<open>a < b\<close> on payloads: numbers with numbers, strings with strings; any other pair
  raises the host's \<^verbatim>\<open>TypeError\<close>.
\<close>

definition py_lt :: "pyval \<Rightarrow> pyval \<Rightarrow> err + bool" where
  "py_lt a b =
     (if is_num a \<and> is_num b then
        Inr (case (num_key a, num_key b) of
               (Some (i, q), Some (j, r)) \<Rightarrow> i < j \<or> (i = j \<and> q < r)
             | _ \<Rightarrow> False)
      else (case (a, b) of (PStr s, PStr t) \<Rightarrow> Inr (str_lt s t) | _ \<Rightarrow> Inl TypeError))"

definition py_le :: "pyval \<Rightarrow> pyval \<Rightarrow> err + bool" where
  "py_le a b =
     (if is_num a \<and> is_num b then
        Inr (case (num_key a, num_key b) of
               (Some (i, q), Some (j, r)) \<Rightarrow> i < j \<or> (i = j \<and> q \<le> r)
             | _ \<Rightarrow> False)
      else (case (a, b) of
              (PStr s, PStr t) \<Rightarrow> Inr (str_lt s t \<or> s = t)
            | _ \<Rightarrow> Inl TypeError))"

text \<open>The six comparison operators of the host on two payloads.\<close>

definition py_compare :: "func \<Rightarrow> pyval \<Rightarrow> pyval \<Rightarrow> err + bool" where
  "py_compare f a b =
     (case f of
        Lt \<Rightarrow> py_lt a b
      | Gt \<Rightarrow> py_lt b a
      | Le \<Rightarrow> py_le a b
      | Ge \<Rightarrow> py_le b a
      | Eq \<Rightarrow> Inr (py_eq a b)
      | Ne \<Rightarrow> Inr (\<not> py_eq a b)
      | _ \<Rightarrow> Inl TypeError)"

text \<open>\<^verbatim>\<open>bool(x)\<close>: zero, the empty string and \<^verbatim>\<open>None\<close> are false.\<close>

definition truthy :: "pyval \<Rightarrow> bool" where
  "truthy p =
     (case p of
        PFloat x \<Rightarrow> float_key x \<noteq> Some (0, 0)
      | PBool b \<Rightarrow> b
      | PNone \<Rightarrow> False
      | PStr s \<Rightarrow> s \<noteq> [])"

text \<open>
  \<^verbatim>\<open>s * n\<close> for a string \<open>s\<close>: repetition when \<open>n\<close> is an integer (a Boolean is one);
  a float, a string or \<^verbatim>\<open>None\<close> as the count raises \<^verbatim>\<open>TypeError\<close>.
\<close>

definition str_times :: "string \<Rightarrow> pyval \<Rightarrow> err + string" where
  "str_times s n =
     (case n of PBool b \<Rightarrow> Inr (if b then s else []) | _ \<Rightarrow> Inl TypeError)"

section \<open>The object model\<close>

text \<open>
  The atoms and the functions are the objects whose \<^verbatim>\<open>visit\<close> returns the object
  itself; the special expressions are the nodes that \<^verbatim>\<open>visit\<close> reduces. An environment
  is a mutable object, so a user-defined function holds the address of its own.
  \<open>BinOp op right left\<close> has the argument order of the constructor
  \<^verbatim>\<open>BinOp.__init__(self, op, right, left)\<close>.
\<close>

type_synonym addr = nat

datatype val =
    Number pyfloat
  | Boolean bool
  | Null
  | String string
  | UserDefinedFunction addr "string list" expr
  | Print
  | Input
  | RandInt
and expr =
    Atom val
  | BinOp string expr expr
  | IfNode expr expr expr
  | Assignment string expr
  | CallNode expr

text \<open>\<^verbatim>\<open>type(x).__name__\<close>, the name of the class of an object.\<close>

definition type_name :: "val \<Rightarrow> string" where
  "type_name v =
     (case v of
        Number _ \<Rightarrow> ''Number''
      | Boolean _ \<Rightarrow> ''Boolean''
      | Null \<Rightarrow> ''Null''
      | String _ \<Rightarrow> ''String''
      | UserDefinedFunction _ _ _ \<Rightarrow> ''UserDefinedFunction''
      | Print \<Rightarrow> ''Print''
      | Input \<Rightarrow> ''Input''
      | RandInt \<Rightarrow> ''RandInt'')"

text \<open>The attribute \<^verbatim>\<open>value\<close>: the atoms have one, the functions do not.\<close>

definition value_of :: "val \<Rightarrow> err + pyval" where
  "value_of v =
     (case v of
        Number x \<Rightarrow> Inr (PFloat x)
      | Boolean b \<Rightarrow> Inr (PBool b)
      | Null \<Rightarrow> Inr PNone
      | String s \<Rightarrow> Inr (PStr s)
      | _ \<Rightarrow> Inl AttributeError)"

subsection \<open>Constructors\<close>

text \<open>
  \<^verbatim>\<open>Number.__init__\<close> stores \<^verbatim>\<open>float(value)\<close>: whatever the argument, the payload is a
  float. The argument here is that float (\<^verbatim>\<open>Number(3)\<close> is \<open>Number_init (Fin 3)\<close>).
\<close>

definition Number_init :: "pyfloat \<Rightarrow> val" where
  "Number_init x = Number x"

definition Boolean_init :: "pyval \<Rightarrow> val" where
  "Boolean_init p = Boolean (truthy p)"

text \<open>\<^verbatim>\<open>String.__init__\<close>: \<^verbatim>\<open>str(value).strip("\"'")\<close>, here for a text argument.\<close>

definition quote_chars :: string where
  "quote_chars = [CHR 0x22, CHR 0x27]"

definition String_init :: "string \<Rightarrow> val" where
  "String_init s = String (strip quote_chars s)"

subsection \<open>Text rendering\<close>

text \<open>\<^verbatim>\<open>Number.repr\<close>.\<close>

definition Number_repr :: "host \<Rightarrow> pyfloat \<Rightarrow> string" where
  "Number_repr h x =
     (if mod1_is_zero x then strip ''.0'' (str_float h x) else str_float h x)"

text \<open>
  \<^verbatim>\<open>repr\<close> of an object that \<^verbatim>\<open>visit\<close> returns, by class: \<^verbatim>\<open>Number.repr\<close>,
  \<^verbatim>\<open>Boolean.repr\<close>, \<^verbatim>\<open>Null.repr\<close>, \<^verbatim>\<open>BaseObject.repr\<close> for a String,
  \<^verbatim>\<open>Function.repr\<close> and \<^verbatim>\<open>BuiltInFunction.repr\<close>.
\<close>

definition repr :: "host \<Rightarrow> val \<Rightarrow> string" where
  "repr h v =
     (case v of
        Number x \<Rightarrow> Number_repr h x
      | Boolean b \<Rightarrow> (if b then ''true'' else ''false'')
      | Null \<Rightarrow> ''null''
      | String s \<Rightarrow> s
      | UserDefinedFunction _ _ _ \<Rightarrow> ''<function UserDefinedFunction>''
      | Print \<Rightarrow> ''<built-in function Print>''
      | Input \<Rightarrow> ''<built-in function Input>''
      | RandInt \<Rightarrow> ''<built-in function RandInt>'')"

subsection \<open>Arithmetic methods of the atoms\<close>

text \<open>
  The methods below take \<open>other\<close> already reduced. In the source each starts with
  \<^verbatim>\<open>isinstance(other, SpecialExpression)\<close> and then calls itself on \<^verbatim>\<open>other.visit()\<close>;
  that reduction is done by \<open>visit\<close> (below) before the method is entered.

  \<^verbatim>\<open>Number.add\<close>, \<^verbatim>\<open>sub\<close>, \<^verbatim>\<open>mul\<close>, \<^verbatim>\<open>div\<close>, \<^verbatim>\<open>mod\<close> differ in the host operation only.
\<close>

definition Number_arith :: "host \<Rightarrow> func \<Rightarrow> pyfloat \<Rightarrow> val \<Rightarrow> err + val" where
  "Number_arith h f x other =
     (case other of
        Number y \<Rightarrow>
          (case float_arith h f x y of Inl e \<Rightarrow> Inl e | Inr z \<Rightarrow> Inr (Number_init z))
      | _ \<Rightarrow> Inl (Abort (''Invalid types for operation: Number and '' @ type_name other)))"

definition String_add :: "host \<Rightarrow> string \<Rightarrow> val \<Rightarrow> err + val" where
  "String_add h s other = Inr (String_init (s @ repr h other))"

definition String_mul :: "string \<Rightarrow> val \<Rightarrow> err + val" where
  "String_mul s other =
     (case other of
        Number y \<Rightarrow>
          (case str_times s (PFloat y) of Inl e \<Rightarrow> Inl e | Inr t \<Rightarrow> Inr (String_init t))
      | _ \<Rightarrow> Inl (Abort (''Invalid types for operation: String and '' @ type_name other)))"

definition String_mod :: "host \<Rightarrow> string \<Rightarrow> val \<Rightarrow> err + val" where
  "String_mod h s other = Inr (String_init (replace_braces s (repr h other)))"

text \<open>
  The call \<^verbatim>\<open>self.f(other)\<close> for an arithmetic \<open>f\<close>, a reduced receiver and a reduced
  argument. A class that does not override \<open>f\<close> inherits \<^verbatim>\<open>BaseObject.f\<close>, which calls
  \<^verbatim>\<open>self.visit().f(other.visit())\<close>: on a receiver whose \<^verbatim>\<open>visit\<close> is itself this is the
  same call again, and the host ends the recursion with \<^verbatim>\<open>RecursionError\<close>.
\<close>

definition arith :: "host \<Rightarrow> func \<Rightarrow> val \<Rightarrow> val \<Rightarrow> err + val" where
  "arith h f self other =
     (case self of
        Number x \<Rightarrow> Number_arith h f x other
      | String s \<Rightarrow>
          (case f of
             Add \<Rightarrow> String_add h s other
           | Mul \<Rightarrow> String_mul s other
           | Mod \<Rightarrow> String_mod h s other
           | _ \<Rightarrow> Inl RecursionError)
      | _ \<Rightarrow> Inl RecursionError)"

section \<open>Environments\<close>

text \<open>
  \<^verbatim>\<open>Env\<close> is a dictionary (in insertion order) with the list \<^verbatim>\<open>constants\<close>.
\<close>

record env =
  items :: "(string \<times> val) list"
  constants :: "string list"

text \<open>\<^verbatim>\<open>dict.__setitem__\<close>: a key already present keeps its place.\<close>

fun dict_set :: "(string \<times> val) list \<Rightarrow> string \<Rightarrow> val \<Rightarrow> (string \<times> val) list" where
  "dict_set [] k v = [(k, v)]"
| "dict_set (p # ps) k v = (if fst p = k then (k, v) # ps else p # dict_set ps k v)"

definition empty_env :: env where
  "empty_env = \<lparr>items = [], constants = []\<rparr>"

text \<open>
  \<^verbatim>\<open>Env.__setitem__\<close>: the environment after the call, and the lines it printed.
\<close>

definition Env_setitem :: "env \<Rightarrow> string \<Rightarrow> val \<Rightarrow> env \<times> string list" where
  "Env_setitem e key v =
     (if key \<in> set (constants e) then (e, [''You can't change a constant!''])
      else if startswith key ''CONST_'' then
        (\<lparr>items = dict_set (items e) (removeprefix key ''CONST_'') v,
          constants = constants e @ [removeprefix key ''CONST_'']\<rparr>, [])
      else (e\<lparr>items := dict_set (items e) key v\<rparr>, []))"

text \<open>\<^verbatim>\<open>Env.__getitem__\<close>: the dictionary's lookup, \<^verbatim>\<open>KeyError\<close> for a missing key.\<close>

definition Env_getitem :: "env \<Rightarrow> string \<Rightarrow> err + val" where
  "Env_getitem e key =
     (case map_of (items e) key of None \<Rightarrow> Inl (KeyError key) | Some v \<Rightarrow> Inr v)"

text \<open>\<^verbatim>\<open>Env.__init__\<close>: every keyword argument goes through \<^verbatim>\<open>__setitem__\<close>, in order.\<close>

fun Env_fill :: "env \<times> string list \<Rightarrow> (string \<times> val) list \<Rightarrow> env \<times> string list" where
  "Env_fill (e, out) [] = (e, out)"
| "Env_fill (e, out) ((k, v) # kwargs) =
     Env_fill (fst (Env_setitem e k v), out @ snd (Env_setitem e k v)) kwargs"

definition Env_init :: "(string \<times> val) list \<Rightarrow> env \<times> string list" where
  "Env_init kwargs = Env_fill (empty_env, []) kwargs"

text \<open>
  The call \<^verbatim>\<open>Env(**kwargs)\<close>. The host binds the keywords to the parameters of
  \<^verbatim>\<open>Env.__init__(self, **kwargs)\<close>: a keyword named \<^verbatim>\<open>self\<close> meets the parameter \<^verbatim>\<open>self\<close>,
  and the host raises \<^verbatim>\<open>TypeError\<close> before \<^verbatim>\<open>__init__\<close> runs. Any other keywords reach
  \<^verbatim>\<open>__init__\<close>.
\<close>

definition Env_new :: "(string \<times> val) list \<Rightarrow> err + (env \<times> string list)" where
  "Env_new kwargs =
     (if ''self'' \<in> fst ` set kwargs then Inl TypeError else Inr (Env_init kwargs))"

section \<open>The interpreter state\<close>

text \<open>
  The mutable objects are the environments: \<open>heap\<close> gives the environment at each
  address and \<open>fresh\<close> is the first address not yet handed out. \<open>ENV\<close> is the global list
  \<^verbatim>\<open>ENV\<close> of frames (by address, the last one is \<^verbatim>\<open>ENV[-1]\<close>), and \<open>stdout\<close> collects the
  lines printed so far.
\<close>

record state =
  heap :: "addr \<Rightarrow> env"
  fresh :: addr
  ENV :: "addr list"
  stdout :: "string list"

text \<open>\<^verbatim>\<open>ENV[-1]\<close>: the host raises \<^verbatim>\<open>IndexError\<close> on an empty list.\<close>

definition ENV_top :: "state \<Rightarrow> err + addr" where
  "ENV_top s = (if ENV s = [] then Inl IndexError else Inr (last (ENV s)))"

text \<open>
  \<^verbatim>\<open>env[name] = v\<close> for the environment at address \<open>a\<close>: the object is updated in
  place and what \<^verbatim>\<open>Env.__setitem__\<close> prints goes to the output.
\<close>

definition setitem_at :: "addr \<Rightarrow> string \<Rightarrow> val \<Rightarrow> state \<Rightarrow> state" where
  "setitem_at a name v s =
     s\<lparr>heap := (heap s)(a := fst (Env_setitem (heap s a) name v)),
       stdout := stdout s @ snd (Env_setitem (heap s a) name v)\<rparr>"

text \<open>\<^verbatim>\<open>ENV[-1][name] = v\<close> and \<^verbatim>\<open>ENV[-1][name]\<close>.\<close>

definition ENV_setitem :: "string \<Rightarrow> val \<Rightarrow> state \<Rightarrow> err + state" where
  "ENV_setitem name v s =
     (case ENV_top s of Inl e \<Rightarrow> Inl e | Inr a \<Rightarrow> Inr (setitem_at a name v s))"

definition ENV_getitem :: "string \<Rightarrow> state \<Rightarrow> err + val" where
  "ENV_getitem name s =
     (case ENV_top s of Inl e \<Rightarrow> Inl e | Inr a \<Rightarrow> Env_getitem (heap s a) name)"

text \<open>
  The module's initial \<^verbatim>\<open>ENV\<close>: one frame, built by \<^verbatim>\<open>Env(**{"CONST_print": Print(), ...})\<close>.
\<close>

definition builtins :: "(string \<times> val) list" where
  "builtins =
     [(''CONST_print'', Print), (''CONST_input'', Input), (''CONST_rand'', RandInt),
      (''CONST_true'', Boolean_init (PBool True)),
      (''CONST_false'', Boolean_init (PBool False)),
      (''CONST_null'', Null)]"

definition initial_state :: state where
  "initial_state =
     \<lparr>heap = (\<lambda>_. empty_env)(0 := fst (Env_init builtins)),
      fresh = 1,
      ENV = [0],
      stdout = snd (Env_init builtins)\<rparr>"

section \<open>Reduction\<close>

text \<open>\<^verbatim>\<open>OP_TO_FUNC_MAP\<close>.\<close>

definition OP_TO_FUNC_MAP :: "string \<Rightarrow> func option" where
  "OP_TO_FUNC_MAP =
     map_of
       [(''+'', Add), (''-'', Sub), (''*'', Mul), (''/'', Div), (''%'', Mod),
        (''=='', Eq), (''!='', Ne), (''<'', Lt), (''>'', Gt), (''<='', Le), (''>='', Ge),
        (''&&'', And), (''||'', Or)]"

definition is_arith :: "func \<Rightarrow> bool" where
  "is_arith f = (f = Add \<or> f = Sub \<or> f = Mul \<or> f = Div \<or> f = Mod)"

definition is_logic :: "func \<Rightarrow> bool" where
  "is_logic f = (f = And \<or> f = Or)"

text \<open>
  \<^verbatim>\<open>visit\<close>, for every class. The result is the object returned and the state after
  the call, or the error that ended the run.

  \<^item> An atom or a function returns itself (\<^verbatim>\<open>BaseObject.visit\<close>, \<^verbatim>\<open>Function.visit\<close>).
  \<^item> \<^verbatim>\<open>BinOp.visit\<close> calls \<^verbatim>\<open>self.right.f(self.left)\<close> for the method \<open>f\<close> that
    \<^verbatim>\<open>OP_TO_FUNC_MAP\<close> names (\<^verbatim>\<open>KeyError\<close> for an unknown operator).
    An arithmetic \<open>f\<close> reduces the receiver, then the argument, and applies \<open>arith\<close>.
    A comparison is \<^verbatim>\<open>Boolean(self.visit().value < other.visit().value)\<close>: receiver,
    its payload, argument, its payload, the host's comparison.
    \<^verbatim>\<open>_and\<close> is \<^verbatim>\<open>Boolean(Boolean(self.visit().value).value and
    Boolean(other.visit().value).value)\<close>, where \<^verbatim>\<open>and\<close> is the host's operator: its
    right operand is evaluated only when the left one is true; \<^verbatim>\<open>_or\<close> alike, with the
    right operand evaluated only when the left one is false.
  \<^item> \<^verbatim>\<open>IfNode.visit\<close> reduces the condition, compares its payload with \<^verbatim>\<open>True\<close> by the
    host's \<^verbatim>\<open>==\<close>, and reduces one block.
  \<^item> \<^verbatim>\<open>Assignment.visit\<close> reduces the value, stores it with \<^verbatim>\<open>ENV[-1][name] = ...\<close> and
    returns \<^verbatim>\<open>ENV[-1][name]\<close>.
  \<^item> \<^verbatim>\<open>CallNode.visit\<close> reduces its expression.
\<close>

fun visit :: "host \<Rightarrow> expr \<Rightarrow> state \<Rightarrow> err + (val \<times> state)" where
  "visit h (Atom v) s = Inr (v, s)"
| "visit h (BinOp op right left) s =
     (case OP_TO_FUNC_MAP op of
        None \<Rightarrow> Inl (KeyError op)
      | Some f \<Rightarrow>
          (case visit h right s of
             Inl e \<Rightarrow> Inl e
           | Inr (r, s1) \<Rightarrow>
               if is_arith f then
                 (case visit h left s1 of
                    Inl e \<Rightarrow> Inl e
                  | Inr (l, s2) \<Rightarrow>
                      (case arith h f r l of Inl e \<Rightarrow> Inl e | Inr v \<Rightarrow> Inr (v, s2)))
               else
                 (case value_of r of
                    Inl e \<Rightarrow> Inl e
                  | Inr p \<Rightarrow>
                      if f = And \<and> \<not> truthy p then Inr (Boolean_init (PBool False), s1)
                      else if f = Or \<and> truthy p then Inr (Boolean_init (PBool True), s1)
                      else
                        (case visit h left s1 of
                           Inl e \<Rightarrow> Inl e
                         | Inr (l, s2) \<Rightarrow>
                             (case value_of l of
                                Inl e \<Rightarrow> Inl e
                              | Inr q \<Rightarrow>
                                  if is_logic f then Inr (Boolean_init (PBool (truthy q)), s2)
                                  else
                                    (case py_compare f p q of
                                       Inl e \<Rightarrow> Inl e
                                     | Inr b \<Rightarrow> Inr (Boolean_init (PBool b), s2)))))))"
| "visit h (IfNode condition true_block false_block) s =
     (case visit h condition s of
        Inl e \<Rightarrow> Inl e
      | Inr (c, s1) \<Rightarrow>
          (case value_of c of
             Inl e \<Rightarrow> Inl e
           | Inr p \<Rightarrow>
               if py_eq p (PBool True) then visit h true_block s1
               else visit h false_block s1))"
| "visit h (Assignment name value) s =
     (case visit h value s of
        Inl e \<Rightarrow> Inl e
      | Inr (v, s1) \<Rightarrow>
          (case ENV_setitem name v s1 of
             Inl e \<Rightarrow> Inl e
           | Inr s2 \<Rightarrow>
               (case ENV_getitem name s2 of Inl e \<Rightarrow> Inl e | Inr w \<Rightarrow> Inr (w, s2))))"
| "visit h (CallNode e) s = visit h e s"

subsection \<open>The comparison and logical methods of \<^verbatim>\<open>BaseObject\<close>\<close>

text \<open>
  The methods as the class \<^verbatim>\<open>BaseObject\<close> states them, for a receiver and an argument
  that are not yet reduced. \<open>visit\<close> above has them inlined in its \<open>BinOp\<close> case (a
  recursive function cannot call a function defined after it); the lemmas
  \<open>visit_lt\<close> to \<open>visit_ne\<close>, \<open>visit_and\<close> and \<open>visit_or\<close> below show that the two agree.

  \<^verbatim>\<open>lt, gt, le, ge, eq, ne\<close>:
  \<^verbatim>\<open>return Boolean(self.visit().value < other.visit().value)\<close>, with the operator of each.
\<close>

definition BaseObject_compare ::
  "host \<Rightarrow> func \<Rightarrow> expr \<Rightarrow> expr \<Rightarrow> state \<Rightarrow> err + (val \<times> state)" where
  "BaseObject_compare h f self other s =
     (case visit h self s of
        Inl e \<Rightarrow> Inl e
      | Inr (r, s1) \<Rightarrow>
          (case value_of r of
             Inl e \<Rightarrow> Inl e
           | Inr p \<Rightarrow>
               (case visit h other s1 of
                  Inl e \<Rightarrow> Inl e
                | Inr (l, s2) \<Rightarrow>
                    (case value_of l of
                       Inl e \<Rightarrow> Inl e
                     | Inr q \<Rightarrow>
                         (case py_compare f p q of
                            Inl e \<Rightarrow> Inl e
                          | Inr b \<Rightarrow> Inr (Boolean_init (PBool b), s2))))))"

text \<open>
  \<^verbatim>\<open>_and\<close>:
  \<^verbatim>\<open>return Boolean(Boolean(self.visit().value).value and Boolean(other.visit().value).value)\<close>.
  The host evaluates the right operand of \<^verbatim>\<open>and\<close> only when the left one is true, and
  the value of \<^verbatim>\<open>x and y\<close> is then \<open>y\<close>, else \<open>x\<close>.
\<close>

definition BaseObject_and :: "host \<Rightarrow> expr \<Rightarrow> expr \<Rightarrow> state \<Rightarrow> err + (val \<times> state)" where
  "BaseObject_and h self other s =
     (case visit h self s of
        Inl e \<Rightarrow> Inl e
      | Inr (r, s1) \<Rightarrow>
          (case value_of r of
             Inl e \<Rightarrow> Inl e
           | Inr p \<Rightarrow>
               if truthy p then
                 (case visit h other s1 of
                    Inl e \<Rightarrow> Inl e
                  | Inr (l, s2) \<Rightarrow>
                      (case value_of l of
                         Inl e \<Rightarrow> Inl e
                       | Inr q \<Rightarrow> Inr (Boolean_init (PBool (truthy q)), s2)))
               else Inr (Boolean_init (PBool (truthy p)), s1)))"

text \<open>
  \<^verbatim>\<open>_or\<close>, with the host's \<^verbatim>\<open>or\<close>: the right operand is evaluated only when the left
  one is false.
\<close>

definition BaseObject_or :: "host \<Rightarrow> expr \<Rightarrow> expr \<Rightarrow> state \<Rightarrow> err + (val \<times> state)" where
  "BaseObject_or h self other s =
     (case visit h self s of
        Inl e \<Rightarrow> Inl e
      | Inr (r, s1) \<Rightarrow>
          (case value_of r of
             Inl e \<Rightarrow> Inl e
           | Inr p \<Rightarrow>
               if truthy p then Inr (Boolean_init (PBool (truthy p)), s1)
               else
                 (case visit h other s1 of
                    Inl e \<Rightarrow> Inl e
                  | Inr (l, s2) \<Rightarrow>
                      (case value_of l of
                         Inl e \<Rightarrow> Inl e
                       | Inr q \<Rightarrow> Inr (Boolean_init (PBool (truthy q)), s2)))))"

text \<open>
  Not from the source but from the words of the specification (section 4.1), for
  comparison with the two methods above: \<^verbatim>\<open>and\<close> and \<^verbatim>\<open>or\<close> always reduce both operands,
  then coerce and combine them. \<open>conn\<close> is the conjunction or the disjunction.
\<close>

definition spec_both_reduced ::
  "(bool \<Rightarrow> bool \<Rightarrow> bool) \<Rightarrow> host \<Rightarrow> expr \<Rightarrow> expr \<Rightarrow> state \<Rightarrow> err + (val \<times> state)" where
  "spec_both_reduced conn h self other s =
     (case visit h self s of
        Inl e \<Rightarrow> Inl e
      | Inr (r, s1) \<Rightarrow>
          (case value_of r of
             Inl e \<Rightarrow> Inl e
           | Inr p \<Rightarrow>
               (case visit h other s1 of
                  Inl e \<Rightarrow> Inl e
                | Inr (l, s2) \<Rightarrow>
                    (case value_of l of
                       Inl e \<Rightarrow> Inl e
                     | Inr q \<Rightarrow> Inr (Boolean (conn (truthy p) (truthy q)), s2)))))"

section \<open>Functions\<close>

text \<open>
  \<^verbatim>\<open>UserDefinedFunction.__init__(self, *args, expr)\<close>:
  \<^verbatim>\<open>self.env = Env(**ENV[-1], **{arg: Null() for arg in args})\<close>.
  The dictionary of the parameters keeps the first occurrence of each name. The host
  raises \<^verbatim>\<open>TypeError\<close> when the two unpacked dictionaries share a key, and (in
  \<open>Env_new\<close>) when one of the keys is \<^verbatim>\<open>self\<close>. The new environment is a new object: it gets
  the fresh address.
\<close>

definition first_occurrences :: "string list \<Rightarrow> string list" where
  "first_occurrences xs = rev (remdups (rev xs))"

definition UserDefinedFunction_init ::
  "string list \<Rightarrow> expr \<Rightarrow> state \<Rightarrow> err + (val \<times> state)" where
  "UserDefinedFunction_init args e s =
     (case ENV_top s of
        Inl er \<Rightarrow> Inl er
      | Inr a \<Rightarrow>
          if set args \<inter> fst ` set (items (heap s a)) \<noteq> {} then Inl TypeError
          else
            (case Env_new (items (heap s a) @ map (\<lambda>p. (p, Null)) (first_occurrences args)) of
               Inl er \<Rightarrow> Inl er
             | Inr (env, out) \<Rightarrow>
                 Inr (UserDefinedFunction (fresh s) args e,
                      s\<lparr>heap := (heap s)(fresh s := env),
                        fresh := Suc (fresh s),
                        stdout := stdout s @ out\<rparr>)))"


section \<open>A host for concrete runs\<close>

text \<open>
  The concrete runs below perform no float arithmetic and render no float other than
  an integer below \<open>10^16\<close>, so neither operation of the host is consulted in them.
\<close>

definition bare_host :: host where
  "bare_host = \<lparr>float_arith = (\<lambda>f x y. Inr NaN), float_repr = (\<lambda>q. ''?'')\<rparr>"

section \<open>Properties of the host's string operations\<close>

lemma rev_split: "xs = rev (dropWhile P (rev xs)) @ rev (takeWhile P (rev xs))"
  by (metis rev_append rev_rev_ident takeWhile_dropWhile_id)

text \<open>What \<open>strip\<close> removes is a run of \<open>cs\<close> at each end.\<close>

lemma strip_decomp:
  "\<exists>pre post. s = pre @ strip cs s @ post \<and> set pre \<subseteq> set cs \<and> set post \<subseteq> set cs"
proof -
  let ?P = "\<lambda>c. c \<in> set cs"
  let ?rest = "dropWhile ?P s"
  have a: "s = takeWhile ?P s @ ?rest" by simp
  have b: "?rest = strip cs s @ rev (takeWhile ?P (rev ?rest))"
    unfolding strip_def by (rule rev_split)
  have c: "set (takeWhile ?P s) \<subseteq> set cs"
    using set_takeWhileD by fastforce
  have d: "set (rev (takeWhile ?P (rev ?rest))) \<subseteq> set cs"
    using set_takeWhileD by fastforce
  from a b have "s = takeWhile ?P s @ strip cs s @ rev (takeWhile ?P (rev ?rest))" by simp
  with c d show ?thesis by blast
qed

text \<open>What \<open>strip\<close> leaves neither starts nor ends with a character of \<open>cs\<close>.\<close>

lemma strip_ends:
  "strip cs s = [] \<or> (hd (strip cs s) \<notin> set cs \<and> last (strip cs s) \<notin> set cs)"
proof (cases "strip cs s = []")
  case True
  then show ?thesis by simp
next
  case False
  let ?P = "\<lambda>c. c \<in> set cs"
  let ?rest = "dropWhile ?P s"
  let ?mid = "dropWhile ?P (rev ?rest)"
  from False have mid: "?mid \<noteq> []" by (simp add: strip_def)
  then have rest: "?rest \<noteq> []" by (metis dropWhile.simps(1) rev.simps(1))
  have l: "last (strip cs s) \<notin> set cs"
    using mid hd_dropWhile [of ?P "rev ?rest"] by (simp add: strip_def last_rev)
  have "?rest = strip cs s @ rev (takeWhile ?P (rev ?rest))"
    unfolding strip_def by (rule rev_split)
  with False have "hd ?rest = hd (strip cs s)"
    by (metis hd_append2)
  moreover have "hd ?rest \<notin> set cs"
    using rest hd_dropWhile [of ?P s] by simp
  ultimately show ?thesis using l by simp
qed

text \<open>Every placeholder is replaced: the scan goes on behind a replaced pair.\<close>

lemma replace_braces_append:
  "replace_braces (a @ ''{}'' @ b) new = replace_braces a new @ new @ replace_braces b new"
  by (induction a new rule: replace_braces.induct) auto




section \<open>The text of a Number\<close>


section \<open>Operations on a String\<close>

text \<open>
  \<^verbatim>\<open>String.mul\<close> returns no String: with a Number the host refuses the repetition, and
  with any other reduced operand the method calls \<^verbatim>\<open>abort\<close>.
\<close>

lemma String_mul_result:
  "String_mul s v =
     (case v of
        Number y \<Rightarrow> Inl TypeError
      | _ \<Rightarrow> Inl (Abort (''Invalid types for operation: String and '' @ type_name v)))"
  by (cases v) (simp_all add: String_mul_def str_times_def)

lemma String_mul_Number: "String_mul s (Number_init x) = Inl TypeError"
  by (simp add: String_mul_def Number_init_def str_times_def)

lemma visit_String_mod:
  "visit h (BinOp ''%'' (Atom (String s)) x) st =
     (case visit h x st of
        Inl e \<Rightarrow> Inl e
      | Inr (v, st') \<Rightarrow> Inr (String_init (replace_braces s (repr h v)), st'))"
  by (simp add: OP_TO_FUNC_MAP_def is_arith_def arith_def String_mod_def
      split: sum.splits prod.splits)

text \<open>
  C10, as the claim states it, fails: it counts repetition via \<^verbatim>\<open>mul\<close> among the
  operations that produce a String whose outer quotes are lost, but \<^verbatim>\<open>mul\<close> produces no
  String. Repeating the text \<^verbatim>\<open>"a"\<close> (with its quotes) twice ends with the host's
  \<^verbatim>\<open>TypeError\<close>, for the method and for the expression that calls it.
\<close>

theorem String_mul_has_no_text:
  "String_mul [CHR 0x22, CHR ''a'', CHR 0x22] (Number_init (Fin 2)) = Inl TypeError
   \<and> visit bare_host
        (BinOp ''*'' (Atom (String [CHR 0x22, CHR ''a'', CHR 0x22])) (Atom (Number_init (Fin 2))))
        initial_state
     = Inl TypeError"
  by (simp add: OP_TO_FUNC_MAP_def is_arith_def arith_def String_mul_def Number_init_def
      str_times_def)

text \<open>
  C10, amended. \<^verbatim>\<open>String.__init__\<close> removes a run of quote characters (\<^verbatim>\<open>"\<close> and \<^verbatim>\<open>'\<close>) at
  each end of its text: what is left neither starts nor ends with a quote. The
  operations that produce a String through the constructor, which are construction,
  concatenation via \<^verbatim>\<open>add\<close> and substitution via \<^verbatim>\<open>mod\<close>, return the constructor's result
  for the text they build, so the quotes at the ends of that text are lost.
\<close>

theorem String_results_lose_outer_quotes:
  "(\<exists>pre post t. String_init s = String t \<and> s = pre @ t @ post
        \<and> set pre \<subseteq> set quote_chars \<and> set post \<subseteq> set quote_chars
        \<and> (t = [] \<or> (hd t \<notin> set quote_chars \<and> last t \<notin> set quote_chars)))
   \<and> String_add h s v = Inr (String_init (s @ repr h v))
   \<and> String_mod h s v = Inr (String_init (replace_braces s (repr h v)))
   \<and> (\<exists>pre post t. String_add h s v = Inr (String t) \<and> s @ repr h v = pre @ t @ post
        \<and> set pre \<subseteq> set quote_chars \<and> set post \<subseteq> set quote_chars
        \<and> (t = [] \<or> (hd t \<notin> set quote_chars \<and> last t \<notin> set quote_chars)))
   \<and> (\<exists>pre post t. String_mod h s v = Inr (String t)
        \<and> replace_braces s (repr h v) = pre @ t @ post
        \<and> set pre \<subseteq> set quote_chars \<and> set post \<subseteq> set quote_chars
        \<and> (t = [] \<or> (hd t \<notin> set quote_chars \<and> last t \<notin> set quote_chars)))"
proof -
  have init: "\<exists>pre post t. String_init r = String t \<and> r = pre @ t @ post
        \<and> set pre \<subseteq> set quote_chars \<and> set post \<subseteq> set quote_chars
        \<and> (t = [] \<or> (hd t \<notin> set quote_chars \<and> last t \<notin> set quote_chars))" for r
  proof -
    obtain pre post where d: "r = pre @ strip quote_chars r @ post"
      "set pre \<subseteq> set quote_chars" "set post \<subseteq> set quote_chars"
      using strip_decomp [of r quote_chars] by blast
    have e: "strip quote_chars r = []
        \<or> (hd (strip quote_chars r) \<notin> set quote_chars
           \<and> last (strip quote_chars r) \<notin> set quote_chars)"
      by (rule strip_ends)
    show ?thesis unfolding String_init_def using d e by blast
  qed
  have add: "String_add h s v = Inr (String_init (s @ repr h v))"
    by (simp add: String_add_def)
  have mod: "String_mod h s v = Inr (String_init (replace_braces s (repr h v)))"
    by (simp add: String_mod_def)
  have add_text: "\<exists>pre post t. String_add h s v = Inr (String t)
        \<and> s @ repr h v = pre @ t @ post
        \<and> set pre \<subseteq> set quote_chars \<and> set post \<subseteq> set quote_chars
        \<and> (t = [] \<or> (hd t \<notin> set quote_chars \<and> last t \<notin> set quote_chars))"
    unfolding add using init [of "s @ repr h v"] by simp
  have mod_text: "\<exists>pre post t. String_mod h s v = Inr (String t)
        \<and> replace_braces s (repr h v) = pre @ t @ post
        \<and> set pre \<subseteq> set quote_chars \<and> set post \<subseteq> set quote_chars
        \<and> (t = [] \<or> (hd t \<notin> set quote_chars \<and> last t \<notin> set quote_chars))"
    unfolding mod using init [of "replace_braces s (repr h v)"] by simp
  from init [of s] add mod add_text mod_text show ?thesis by blast
qed

text \<open>
  C5. \<^verbatim>\<open>String("x") * Number(3)\<close> does not return \<^verbatim>\<open>String("xxx")\<close>: the payload of a
  Number is always a float, and the host refuses to repeat a text a float number of
  times. The run ends with the host's \<^verbatim>\<open>TypeError\<close>.
\<close>

theorem String_mul_raises:
  "visit bare_host (BinOp ''*'' (Atom (String_init ''x'')) (Atom (Number_init (Fin 3))))
       initial_state
     = Inl TypeError
   \<and> String_mul ''x'' (Number_init (Fin 3)) = Inl TypeError"
  by (simp add: OP_TO_FUNC_MAP_def is_arith_def arith_def String_init_def strip_def
      quote_chars_def String_mul_def Number_init_def str_times_def)

text \<open>
  C4, as the claim states it, fails: with two placeholders in the text, the second one
  is replaced as well.
\<close>

theorem String_mod_second_placeholder:
  "String_mod bare_host ''{} {}'' (String_init ''a'') = Inr (String ''a a'')
   \<and> String_mod bare_host ''{} {}'' (String_init ''a'') \<noteq> Inr (String ''a {}'')"
  by (simp add: String_mod_def String_init_def strip_def quote_chars_def repr_def)

text \<open>
  C4, amended. For every String \<open>s\<close> and every operand \<open>x\<close>, \<^verbatim>\<open>s % x\<close> reduces \<open>x\<close> and
  returns the String built from \<open>s\<close> with every occurrence of the placeholder \<^verbatim>\<open>{}\<close>
  replaced by the \<^verbatim>\<open>repr\<close> of the reduced value: the text behind a replaced placeholder is
  treated in the same way, so a second placeholder is replaced too.
\<close>

theorem String_mod_replaces_every_placeholder:
  "visit h (BinOp ''%'' (Atom (String s)) x) st =
     (case visit h x st of
        Inl e \<Rightarrow> Inl e
      | Inr (v, st') \<Rightarrow> Inr (String_init (replace_braces s (repr h v)), st'))
   \<and> String_mod h (a @ ''{}'' @ b) v
     = Inr (String_init (replace_braces a (repr h v) @ repr h v @ replace_braces b (repr h v)))
   \<and> String_mod h (a @ ''{}'' @ b @ ''{}'' @ c) v
     = Inr (String_init (replace_braces a (repr h v) @ repr h v @ replace_braces b (repr h v)
          @ repr h v @ replace_braces c (repr h v)))"
  by (simp only: visit_String_mod String_mod_def replace_braces_append simp_thms)

section \<open>Reduction of the special expressions\<close>

subsection \<open>\<open>BinOp.visit\<close> runs the methods of \<open>BaseObject\<close>\<close>

lemma if_neg: "(if \<not> c then a else b) = (if c then b else a)"
  by simp

lemma visit_and: "visit h (BinOp ''&&'' a b) s = BaseObject_and h a b s"
  by (simp add: OP_TO_FUNC_MAP_def is_arith_def is_logic_def BaseObject_and_def if_neg
      cong: sum.case_cong prod.case_cong if_cong)

lemma visit_or: "visit h (BinOp ''||'' a b) s = BaseObject_or h a b s"
  by (simp add: OP_TO_FUNC_MAP_def is_arith_def is_logic_def BaseObject_or_def
      cong: sum.case_cong prod.case_cong if_cong)

lemma visit_lt: "visit h (BinOp ''<'' a b) s = BaseObject_compare h Lt a b s"
  by (simp add: OP_TO_FUNC_MAP_def is_arith_def is_logic_def BaseObject_compare_def
      cong: sum.case_cong prod.case_cong)

lemma visit_gt: "visit h (BinOp ''>'' a b) s = BaseObject_compare h Gt a b s"
  by (simp add: OP_TO_FUNC_MAP_def is_arith_def is_logic_def BaseObject_compare_def
      cong: sum.case_cong prod.case_cong)

lemma visit_le: "visit h (BinOp ''<='' a b) s = BaseObject_compare h Le a b s"
  by (simp add: OP_TO_FUNC_MAP_def is_arith_def is_logic_def BaseObject_compare_def
      cong: sum.case_cong prod.case_cong)

lemma visit_ge: "visit h (BinOp ''>='' a b) s = BaseObject_compare h Ge a b s"
  by (simp add: OP_TO_FUNC_MAP_def is_arith_def is_logic_def BaseObject_compare_def
      cong: sum.case_cong prod.case_cong)

lemma visit_eq: "visit h (BinOp ''=='' a b) s = BaseObject_compare h Eq a b s"
  by (simp add: OP_TO_FUNC_MAP_def is_arith_def is_logic_def BaseObject_compare_def
      cong: sum.case_cong prod.case_cong)

lemma visit_ne: "visit h (BinOp ''!='' a b) s = BaseObject_compare h Ne a b s"
  by (simp add: OP_TO_FUNC_MAP_def is_arith_def is_logic_def BaseObject_compare_def
      cong: sum.case_cong prod.case_cong)

subsection \<open>Payload tests\<close>

lemma truthy_iff:
  "truthy p = (p \<notin> {PFloat (Fin 0), PFloat NegZero, PBool False, PNone, PStr []})"
  by (auto simp: truthy_def float_key_def split: pyval.splits pyfloat.splits)

text \<open>The host's \<^verbatim>\<open>x == True\<close> holds for \<^verbatim>\<open>True\<close> and for the float \<^verbatim>\<open>1.0\<close>.\<close>

lemma py_eq_True: "py_eq p (PBool True) = (p = PBool True \<or> p = PFloat (Fin 1))"
  by (auto simp: py_eq_def is_num_def num_key_def float_key_def
      split: pyval.splits pyfloat.splits)

subsection \<open>Runs from the initial state\<close>

lemma init_env:
  "Env_init builtins =
     (\<lparr>items = [(''print'', Print), (''input'', Input), (''rand'', RandInt),
                (''true'', Boolean True), (''false'', Boolean False), (''null'', Null)],
       constants = [''print'', ''input'', ''rand'', ''true'', ''false'', ''null'']\<rparr>, [])"
  by (simp add: Env_init_def builtins_def empty_env_def Env_setitem_def startswith_def
      removeprefix_def Boolean_init_def truthy_def)

lemmas run_defs = initial_state_def init_env ENV_setitem_def ENV_getitem_def ENV_top_def
  setitem_at_def Env_setitem_def Env_getitem_def Number_init_def Boolean_init_def truthy_def
  startswith_def removeprefix_def value_of_def

text \<open>A write to the locked name \<^verbatim>\<open>true\<close> prints the diagnostic and changes nothing else.\<close>

lemma assign_true:
  "visit bare_host (Assignment ''true'' (Atom Null)) initial_state
     = Inr (Boolean True, initial_state\<lparr>stdout := [''You can't change a constant!'']\<rparr>)"
  by (simp add: run_defs)

subsection \<open>The conditional\<close>

text \<open>
  C1. \<^verbatim>\<open>IfNode.visit\<close> first reduces the condition to a value \<open>v\<close> (reaching the state
  \<open>s1\<close>) and compares its payload \<open>p\<close> with the payload of the Boolean true, by the
  host's equality (which holds for \<^verbatim>\<open>True\<close> and for the float \<^verbatim>\<open>1.0\<close>). If they are equal,
  the result and the state of the conditional are those of reducing the true-branch
  from \<open>s1\<close>, whatever the false-branch is; otherwise they are those of reducing the
  false-branch from \<open>s1\<close>, whatever the true-branch is. The branch not taken does not
  occur in the result: it is not reduced and none of its effects takes place.
\<close>

theorem IfNode_reduces_one_branch:
  assumes "visit h c s = Inr (v, s1)" and "value_of v = Inr p"
  shows "(py_eq p (PBool True) \<longrightarrow> visit h (IfNode c t f) s = visit h t s1)
       \<and> (\<not> py_eq p (PBool True) \<longrightarrow> visit h (IfNode c t f) s = visit h f s1)
       \<and> py_eq p (PBool True) = (p = PBool True \<or> p = PFloat (Fin 1))"
  using assms by (simp add: py_eq_True)

text \<open>
  The test of section 8 of the specification: the branch not taken is a write to a
  locked name, whose reduction on its own prints the diagnostic; reducing the
  conditional leaves the initial state as it is, output included.
\<close>

theorem IfNode_reduces_one_branch_witness:
  "visit bare_host
      (IfNode (Atom (Boolean True)) (Atom Null) (Assignment ''true'' (Atom Null))) initial_state
     = Inr (Null, initial_state)
   \<and> visit bare_host
      (IfNode (Atom (Boolean False)) (Assignment ''true'' (Atom Null)) (Atom Null)) initial_state
     = Inr (Null, initial_state)
   \<and> visit bare_host (Assignment ''true'' (Atom Null)) initial_state
     = Inr (Boolean True, initial_state\<lparr>stdout := [''You can't change a constant!'']\<rparr>)"
proof -
  have t: "visit bare_host (Atom (Boolean True)) initial_state = Inr (Boolean True, initial_state)"
    by simp
  have f: "visit bare_host (Atom (Boolean False)) initial_state = Inr (Boolean False, initial_state)"
    by simp
  have pt: "value_of (Boolean True) = Inr (PBool True)" by (simp add: value_of_def)
  have pf: "value_of (Boolean False) = Inr (PBool False)" by (simp add: value_of_def)
  have a: "visit bare_host
      (IfNode (Atom (Boolean True)) (Atom Null) (Assignment ''true'' (Atom Null))) initial_state
     = Inr (Null, initial_state)"
    using IfNode_reduces_one_branch [OF t pt, of "Atom Null" "Assignment ''true'' (Atom Null)"]
    by simp
  have b: "visit bare_host
      (IfNode (Atom (Boolean False)) (Assignment ''true'' (Atom Null)) (Atom Null)) initial_state
     = Inr (Null, initial_state)"
    using IfNode_reduces_one_branch [OF f pf, of "Assignment ''true'' (Atom Null)" "Atom Null"]
    by simp
  from a b assign_true show ?thesis by (simp only: simp_thms)
qed

subsection \<open>Logical and, logical or\<close>

lemma spec_and_run:
  "spec_both_reduced (\<and>) bare_host (Atom (Boolean False)) (Assignment ''x'' (Atom (Number (Fin 1))))
       initial_state
     = Inr (Boolean False, setitem_at 0 ''x'' (Number (Fin 1)) initial_state)"
  by (simp add: spec_both_reduced_def run_defs)

text \<open>
  C3, as the claim states it, fails: with a false first operand, \<^verbatim>\<open>&&\<close> returns without
  reducing the second one. Here the second operand is an assignment to \<^verbatim>\<open>x\<close>: after the
  run the state is the initial one, in which \<^verbatim>\<open>x\<close> is unbound, while reducing both
  operands would have bound \<^verbatim>\<open>x\<close>.
\<close>

theorem and_skips_second_operand:
  "visit bare_host (BinOp ''&&'' (Atom (Boolean False)) (Assignment ''x'' (Atom (Number (Fin 1)))))
       initial_state
     = Inr (Boolean False, initial_state)
   \<and> spec_both_reduced (\<and>) bare_host (Atom (Boolean False)) (Assignment ''x'' (Atom (Number (Fin 1))))
       initial_state
     = Inr (Boolean False, setitem_at 0 ''x'' (Number (Fin 1)) initial_state)
   \<and> ENV_getitem ''x'' initial_state = Inl (KeyError ''x'')
   \<and> ENV_getitem ''x'' (setitem_at 0 ''x'' (Number (Fin 1)) initial_state) = Inr (Number (Fin 1))"
  by (simp add: visit_and BaseObject_and_def spec_both_reduced_def run_defs del: visit.simps(2))

text \<open>
  C3, amended. Logical and / logical or reduce their first operand (the receiver) and
  coerce its payload \<open>p\<close> to a Boolean by the truthiness rule (numeric zero, the empty
  string, Null and false are falsy; everything else is truthy). When that already
  determines the result (\<open>p\<close> falsy for and, truthy for or) they return it from the
  state \<open>s1\<close> reached by the first operand: the second operand is not reduced. Otherwise
  they reduce the second operand too and return what reducing both and combining the
  two Booleans gives.
\<close>

theorem and_or_short_circuit:
  assumes "visit h a s = Inr (r, s1)" and "value_of r = Inr p"
  shows "(\<not> truthy p \<longrightarrow> visit h (BinOp ''&&'' a b) s = Inr (Boolean False, s1))
       \<and> (truthy p \<longrightarrow> visit h (BinOp ''||'' a b) s = Inr (Boolean True, s1))
       \<and> (truthy p \<longrightarrow> visit h (BinOp ''&&'' a b) s = spec_both_reduced (\<and>) h a b s)
       \<and> (\<not> truthy p \<longrightarrow> visit h (BinOp ''||'' a b) s = spec_both_reduced (\<or>) h a b s)
       \<and> truthy q = (q \<notin> {PFloat (Fin 0), PFloat NegZero, PBool False, PNone, PStr []})"
proof -
  have 1: "\<not> truthy p \<longrightarrow> visit h (BinOp ''&&'' a b) s = Inr (Boolean False, s1)"
    using assms by (simp add: visit_and BaseObject_and_def Boolean_init_def truthy_def del: visit.simps(2))
  have 2: "truthy p \<longrightarrow> visit h (BinOp ''||'' a b) s = Inr (Boolean True, s1)"
    using assms by (simp add: visit_or BaseObject_or_def Boolean_init_def truthy_def del: visit.simps(2))
  have 3: "truthy p \<longrightarrow> visit h (BinOp ''&&'' a b) s = spec_both_reduced (\<and>) h a b s"
    using assms
    by (simp add: visit_and BaseObject_and_def spec_both_reduced_def Boolean_init_def truthy_def
        del: visit.simps(2) split: sum.splits prod.splits)
  have 4: "\<not> truthy p \<longrightarrow> visit h (BinOp ''||'' a b) s = spec_both_reduced (\<or>) h a b s"
    using assms
    by (simp add: visit_or BaseObject_or_def spec_both_reduced_def Boolean_init_def truthy_def
        del: visit.simps(2) split: sum.splits prod.splits)
  from 1 2 3 4 truthy_iff [of q] show ?thesis by blast
qed

text \<open>
  Four runs: in the first two the second operand, a write to a locked name that would
  print the diagnostic, is skipped; in the last two it is reduced.
\<close>

theorem and_or_short_circuit_witness:
  "visit bare_host (BinOp ''&&'' (Atom (String [])) (Assignment ''true'' (Atom Null))) initial_state
     = Inr (Boolean False, initial_state)
   \<and> visit bare_host (BinOp ''||'' (Atom (String ''a'')) (Assignment ''true'' (Atom Null)))
       initial_state
     = Inr (Boolean True, initial_state)
   \<and> visit bare_host (BinOp ''&&'' (Atom (String ''a'')) (Atom Null)) initial_state
     = Inr (Boolean False, initial_state)
   \<and> visit bare_host (BinOp ''||'' (Atom (String [])) (Atom (Number (Fin 2)))) initial_state
     = Inr (Boolean True, initial_state)"
proof -
  have e: "visit bare_host (Atom (String [])) initial_state = Inr (String [], initial_state)"
    by simp
  have a: "visit bare_host (Atom (String ''a'')) initial_state = Inr (String ''a'', initial_state)"
    by simp
  have pe: "value_of (String []) = Inr (PStr [])" by (simp add: value_of_def)
  have pa: "value_of (String ''a'') = Inr (PStr ''a'')" by (simp add: value_of_def)
  have te: "\<not> truthy (PStr [])" by (simp add: truthy_def)
  have ta: "truthy (PStr ''a'')" by (simp add: truthy_def)
  have 1: "visit bare_host (BinOp ''&&'' (Atom (String [])) (Assignment ''true'' (Atom Null)))
      initial_state = Inr (Boolean False, initial_state)"
    using and_or_short_circuit [OF e pe, of "Assignment ''true'' (Atom Null)"] te by simp
  have 2: "visit bare_host (BinOp ''||'' (Atom (String ''a'')) (Assignment ''true'' (Atom Null)))
      initial_state = Inr (Boolean True, initial_state)"
    using and_or_short_circuit [OF a pa, of "Assignment ''true'' (Atom Null)"] ta by simp
  have 3: "visit bare_host (BinOp ''&&'' (Atom (String ''a'')) (Atom Null)) initial_state
      = Inr (Boolean False, initial_state)"
    using and_or_short_circuit [OF a pa, of "Atom Null"] ta
    by (simp add: spec_both_reduced_def value_of_def truthy_def)
  have 4: "visit bare_host (BinOp ''||'' (Atom (String [])) (Atom (Number (Fin 2)))) initial_state
      = Inr (Boolean True, initial_state)"
    using and_or_short_circuit [OF e pe, of "Atom (Number (Fin 2))"] te
    by (simp add: spec_both_reduced_def value_of_def truthy_def float_key_def)
  from 1 2 3 4 show ?thesis by (simp only: simp_thms)
qed

subsection \<open>Comparisons\<close>

lemma py_compare_Number_String:
  "py_compare f (PFloat x) (PStr t) =
     (if f = Eq then Inr False else if f = Ne then Inr True else Inl TypeError)"
  by (cases f) (simp_all add: py_compare_def py_eq_def py_lt_def py_le_def is_num_def)

lemma py_compare_String_Number:
  "py_compare f (PStr t) (PFloat x) =
     (if f = Eq then Inr False else if f = Ne then Inr True else Inl TypeError)"
  by (cases f) (simp_all add: py_compare_def py_eq_def py_lt_def py_le_def is_num_def)

lemma compare_atoms:
  "BaseObject_compare h f (Atom (Number x)) (Atom (String t)) s =
     (if f = Eq then Inr (Boolean False, s) else if f = Ne then Inr (Boolean True, s)
      else Inl TypeError)"
  by (simp add: BaseObject_compare_def value_of_def py_compare_Number_String Boolean_init_def
      truthy_def)

text \<open>
  C6, as the claim states it, fails: comparing a Number with a String by \<^verbatim>\<open>==\<close> is no
  error at all (the result is the Boolean false), and comparing them by \<^verbatim>\<open><\<close> ends with
  the host's \<^verbatim>\<open>TypeError\<close>, not with a call of \<^verbatim>\<open>abort\<close>.
\<close>

theorem comparison_without_TypeMismatch:
  "visit bare_host (BinOp ''=='' (Atom (Number_init (Fin 1))) (Atom (String_init ''a'')))
       initial_state
     = Inr (Boolean False, initial_state)
   \<and> visit bare_host (BinOp ''<'' (Atom (Number_init (Fin 1))) (Atom (String_init ''a'')))
       initial_state
     = Inl TypeError"
  by (simp add: visit_eq visit_lt compare_atoms Number_init_def String_init_def strip_def
      quote_chars_def del: visit.simps(2))

lemma py_lt_no_abort: "py_lt p q \<noteq> Inl (Abort m)"
  by (simp add: py_lt_def split: pyval.splits)

lemma py_le_no_abort: "py_le p q \<noteq> Inl (Abort m)"
  by (simp add: py_le_def split: pyval.splits)

lemma py_compare_no_abort: "py_compare f p q \<noteq> Inl (Abort m)"
  by (cases f) (simp_all add: py_compare_def py_lt_no_abort py_le_no_abort)

lemma value_of_no_abort: "value_of v \<noteq> Inl (Abort m)"
  by (simp add: value_of_def split: val.splits)

lemma py_compare_finite:
  "py_compare f (PFloat (Fin x)) (PFloat (Fin y)) =
     (if f = Lt then Inr (x < y) else if f = Gt then Inr (y < x)
      else if f = Le then Inr (x \<le> y) else if f = Ge then Inr (y \<le> x)
      else if f = Eq then Inr (x = y) else if f = Ne then Inr (x \<noteq> y)
      else Inl TypeError)"
  by (cases f)
    (auto simp: py_compare_def py_lt_def py_le_def py_eq_def is_num_def num_key_def float_key_def)

lemma py_compare_strings:
  "py_compare f (PStr t) (PStr u) =
     (if f = Lt then Inr (str_lt t u) else if f = Gt then Inr (str_lt u t)
      else if f = Le then Inr (str_lt t u \<or> t = u) else if f = Ge then Inr (str_lt u t \<or> u = t)
      else if f = Eq then Inr (t = u) else if f = Ne then Inr (t \<noteq> u)
      else Inl TypeError)"
  by (cases f) (auto simp: py_compare_def py_lt_def py_le_def py_eq_def is_num_def)

lemma py_compare_Null:
  "py_compare f PNone q =
     (if f = Eq then Inr (q = PNone) else if f = Ne then Inr (q \<noteq> PNone) else Inl TypeError)"
  by (cases f; cases q)
    (simp_all add: py_compare_def py_lt_def py_le_def py_eq_def is_num_def)

lemma py_compare_Boolean_left:
  "py_compare f (PBool c) q = py_compare f (PFloat (Fin (if c then 1 else 0))) q"
  by (cases f; cases q)
    (simp_all add: py_compare_def py_lt_def py_le_def py_eq_def is_num_def num_key_def
      float_key_def)

lemma py_compare_Boolean_right:
  "py_compare f p (PBool c) = py_compare f p (PFloat (Fin (if c then 1 else 0)))"
  by (cases f; cases p)
    (simp_all add: py_compare_def py_lt_def py_le_def py_eq_def is_num_def num_key_def
      float_key_def)

lemma py_compare_NaN_left:
  "py_compare f (PFloat NaN) (PFloat y) =
     (if f = Lt \<or> f = Gt \<or> f = Le \<or> f = Ge \<or> f = Eq then Inr False
      else if f = Ne then Inr True else Inl TypeError)"
  by (cases f; cases y)
    (simp_all add: py_compare_def py_lt_def py_le_def py_eq_def is_num_def num_key_def
      float_key_def)

lemma py_compare_NaN_right:
  "py_compare f (PFloat x) (PFloat NaN) =
     (if f = Lt \<or> f = Gt \<or> f = Le \<or> f = Ge \<or> f = Eq then Inr False
      else if f = Ne then Inr True else Inl TypeError)"
  by (cases f; cases x)
    (simp_all add: py_compare_def py_lt_def py_le_def py_eq_def is_num_def num_key_def
      float_key_def)

lemma visit_comparison:
  assumes "(op, f) \<in> set [(''<'', Lt), (''>'', Gt), (''<='', Le), (''>='', Ge), (''=='', Eq),
                          (''!='', Ne)]"
  shows "visit h (BinOp op a b) s = BaseObject_compare h f a b s"
  using assms visit_lt visit_gt visit_le visit_ge visit_eq visit_ne
  by (auto simp del: visit.simps(2))

text \<open>
  C6, amended. Each comparison operator (lt, gt, le, ge, eq, ne) first reduces both
  operands: the receiver, whose payload is read, then the argument, from the state the
  receiver left, whose payload is read; an error on the way ends the run with that
  error. Then only the two payloads are compared, with the host's operator of that
  name, and the result is the Boolean of the outcome, in the state the argument left.
  No comparison calls \<^verbatim>\<open>abort\<close>: the host's operator never does, so a run that ends in
  an abort got it from reducing an operand. Two finite Numbers, and two Strings, are
  compared by value; a Boolean payload counts as the number 0 or 1; not-a-number is
  unequal to every number and in no order with it; Null is equal to Null only and has
  no order. Between a Number and
  a String (in either order), eq returns the Boolean false and ne the Boolean true, and
  each of lt, gt, le, ge ends with the host's \<^verbatim>\<open>TypeError\<close>.
\<close>

theorem comparison_uses_host_operators:
  assumes op: "(op, f) \<in> set [(''<'', Lt), (''>'', Gt), (''<='', Le), (''>='', Ge),
                               (''=='', Eq), (''!='', Ne)]"
  shows "visit h (BinOp op a b) s =
      (case visit h a s of
         Inl e \<Rightarrow> Inl e
       | Inr (r, s1) \<Rightarrow>
           (case value_of r of
              Inl e \<Rightarrow> Inl e
            | Inr p \<Rightarrow>
                (case visit h b s1 of
                   Inl e \<Rightarrow> Inl e
                 | Inr (l, s2) \<Rightarrow>
                     (case value_of l of
                        Inl e \<Rightarrow> Inl e
                      | Inr q \<Rightarrow>
                          (case py_compare f p q of
                             Inl e \<Rightarrow> Inl e
                           | Inr c \<Rightarrow> Inr (Boolean c, s2))))))
    \<and> (\<forall>m. visit h (BinOp op a b) s = Inl (Abort m) \<longrightarrow>
          visit h a s = Inl (Abort m)
          \<or> (\<exists>r s1. visit h a s = Inr (r, s1) \<and> visit h b s1 = Inl (Abort m)))
    \<and> (\<forall>p q m. py_compare f p q \<noteq> Inl (Abort m))
    \<and> (\<forall>x y. py_compare f (PFloat (Fin x)) (PFloat (Fin y)) =
          Inr (if f = Lt then x < y else if f = Gt then y < x
               else if f = Le then x \<le> y else if f = Ge then y \<le> x
               else if f = Eq then x = y else x \<noteq> y))
    \<and> (\<forall>t u. py_compare f (PStr t) (PStr u) =
          Inr (if f = Lt then str_lt t u else if f = Gt then str_lt u t
               else if f = Le then str_lt t u \<or> t = u else if f = Ge then str_lt u t \<or> u = t
               else if f = Eq then t = u else t \<noteq> u))
    \<and> (\<forall>x t. py_compare f (PFloat x) (PStr t) =
          (if f = Eq then Inr False else if f = Ne then Inr True else Inl TypeError))
    \<and> (\<forall>x t. py_compare f (PStr t) (PFloat x) =
          (if f = Eq then Inr False else if f = Ne then Inr True else Inl TypeError))
    \<and> (\<forall>q. py_compare f PNone q =
          (if f = Eq then Inr (q = PNone) else if f = Ne then Inr (q \<noteq> PNone)
           else Inl TypeError))
    \<and> (\<forall>c q. py_compare f (PBool c) q = py_compare f (PFloat (Fin (if c then 1 else 0))) q)
    \<and> (\<forall>p c. py_compare f p (PBool c) = py_compare f p (PFloat (Fin (if c then 1 else 0))))
    \<and> (\<forall>y. py_compare f (PFloat NaN) (PFloat y) = Inr (f = Ne))
    \<and> (\<forall>x. py_compare f (PFloat x) (PFloat NaN) = Inr (f = Ne))"
proof -
  from op have f: "f = Lt \<or> f = Gt \<or> f = Le \<or> f = Ge \<or> f = Eq \<or> f = Ne" by auto
  have 1: "visit h (BinOp op a b) s =
      (case visit h a s of
         Inl e \<Rightarrow> Inl e
       | Inr (r, s1) \<Rightarrow>
           (case value_of r of
              Inl e \<Rightarrow> Inl e
            | Inr p \<Rightarrow>
                (case visit h b s1 of
                   Inl e \<Rightarrow> Inl e
                 | Inr (l, s2) \<Rightarrow>
                     (case value_of l of
                        Inl e \<Rightarrow> Inl e
                      | Inr q \<Rightarrow>
                          (case py_compare f p q of
                             Inl e \<Rightarrow> Inl e
                           | Inr c \<Rightarrow> Inr (Boolean c, s2))))))"
    unfolding visit_comparison [OF op] BaseObject_compare_def
    by (simp add: Boolean_init_def truthy_def cong: sum.case_cong prod.case_cong)
  have 2: "visit h a s = Inl (Abort m)
          \<or> (\<exists>r s1. visit h a s = Inr (r, s1) \<and> visit h b s1 = Inl (Abort m))"
    if "visit h (BinOp op a b) s = Inl (Abort m)" for m
    using that unfolding 1
    by (auto simp: py_compare_no_abort value_of_no_abort split: sum.splits prod.splits)
  have 4: "py_compare f (PFloat (Fin x)) (PFloat (Fin y)) =
          Inr (if f = Lt then x < y else if f = Gt then y < x
               else if f = Le then x \<le> y else if f = Ge then y \<le> x
               else if f = Eq then x = y else x \<noteq> y)" for x y
    using f by (auto simp: py_compare_finite)
  have 5: "py_compare f (PStr t) (PStr u) =
          Inr (if f = Lt then str_lt t u else if f = Gt then str_lt u t
               else if f = Le then str_lt t u \<or> t = u else if f = Ge then str_lt u t \<or> u = t
               else if f = Eq then t = u else t \<noteq> u)" for t u
    using f by (auto simp: py_compare_strings)
  have 6: "py_compare f (PFloat NaN) (PFloat y) = Inr (f = Ne)" for y
    using f by (auto simp: py_compare_NaN_left)
  have 7: "py_compare f (PFloat x) (PFloat NaN) = Inr (f = Ne)" for x
    using f by (auto simp: py_compare_NaN_right)
  from 1 2 4 5 6 7 py_compare_no_abort [of f] py_compare_Number_String [of f]
    py_compare_String_Number [of f] py_compare_Null [of f]
    py_compare_Boolean_left [of f] py_compare_Boolean_right [of f]
  show ?thesis by blast
qed

text \<open>
  Runs of the six operators from the initial state. In the last one the receiver is a
  function, which has no payload: the run ends before the argument is reduced.
\<close>

theorem comparison_uses_host_operators_witness:
  "visit bare_host (BinOp ''<'' (Atom (Number (Fin 1))) (Atom (Number (Fin 2)))) initial_state
     = Inr (Boolean True, initial_state)
   \<and> visit bare_host (BinOp ''>='' (Atom (Number (Fin 1))) (Atom (Number (Fin 2)))) initial_state
     = Inr (Boolean False, initial_state)
   \<and> visit bare_host (BinOp ''<='' (Atom (String ''ab'')) (Atom (String ''b''))) initial_state
     = Inr (Boolean True, initial_state)
   \<and> visit bare_host (BinOp ''!='' (Atom (Number (Fin 1))) (Atom (String ''a''))) initial_state
     = Inr (Boolean True, initial_state)
   \<and> visit bare_host (BinOp ''>'' (Atom (String ''a'')) (Atom (Number (Fin 1)))) initial_state
     = Inl TypeError
   \<and> visit bare_host (BinOp ''=='' (Atom Null) (Atom Null)) initial_state
     = Inr (Boolean True, initial_state)
   \<and> visit bare_host (BinOp ''<'' (Atom Null) (Atom Null)) initial_state = Inl TypeError
   \<and> visit bare_host (BinOp ''=='' (Atom Print) (Assignment ''x'' (Atom Null))) initial_state
     = Inl AttributeError"
proof -
  have m_Lt: "(''<'', Lt) \<in> set [(''<'', Lt), (''>'', Gt), (''<='', Le), (''>='', Ge),
      (''=='', Eq), (''!='', Ne)]" by simp
  have m_Gt: "(''>'', Gt) \<in> set [(''<'', Lt), (''>'', Gt), (''<='', Le), (''>='', Ge),
      (''=='', Eq), (''!='', Ne)]" by simp
  have m_Le: "(''<='', Le) \<in> set [(''<'', Lt), (''>'', Gt), (''<='', Le), (''>='', Ge),
      (''=='', Eq), (''!='', Ne)]" by simp
  have m_Ge: "(''>='', Ge) \<in> set [(''<'', Lt), (''>'', Gt), (''<='', Le), (''>='', Ge),
      (''=='', Eq), (''!='', Ne)]" by simp
  have m_Eq: "(''=='', Eq) \<in> set [(''<'', Lt), (''>'', Gt), (''<='', Le), (''>='', Ge),
      (''=='', Eq), (''!='', Ne)]" by simp
  have m_Ne: "(''!='', Ne) \<in> set [(''<'', Lt), (''>'', Gt), (''<='', Le), (''>='', Ge),
      (''=='', Eq), (''!='', Ne)]" by simp
  have 1: "visit bare_host (BinOp ''<'' (Atom (Number (Fin 1))) (Atom (Number (Fin 2))))
      initial_state = Inr (Boolean True, initial_state)"
    using comparison_uses_host_operators
        [OF m_Lt, where h = bare_host and a = "Atom (Number (Fin 1))" and b = "Atom (Number (Fin 2))"
          and s = initial_state]
    by (simp add: value_of_def)
  have 2: "visit bare_host (BinOp ''>='' (Atom (Number (Fin 1))) (Atom (Number (Fin 2))))
      initial_state = Inr (Boolean False, initial_state)"
    using comparison_uses_host_operators
        [OF m_Ge, where h = bare_host and a = "Atom (Number (Fin 1))" and b = "Atom (Number (Fin 2))"
          and s = initial_state]
    by (simp add: value_of_def)
  have 3: "visit bare_host (BinOp ''<='' (Atom (String ''ab'')) (Atom (String ''b'')))
      initial_state = Inr (Boolean True, initial_state)"
    using comparison_uses_host_operators
        [OF m_Le, where h = bare_host and a = "Atom (String ''ab'')" and b = "Atom (String ''b'')"
          and s = initial_state]
    by (simp add: value_of_def)
  have 4: "visit bare_host (BinOp ''!='' (Atom (Number (Fin 1))) (Atom (String ''a'')))
      initial_state = Inr (Boolean True, initial_state)"
    using comparison_uses_host_operators
        [OF m_Ne, where h = bare_host and a = "Atom (Number (Fin 1))" and b = "Atom (String ''a'')"
          and s = initial_state]
    by (simp add: value_of_def)
  have 5: "visit bare_host (BinOp ''>'' (Atom (String ''a'')) (Atom (Number (Fin 1))))
      initial_state = Inl TypeError"
    using comparison_uses_host_operators
        [OF m_Gt, where h = bare_host and a = "Atom (String ''a'')" and b = "Atom (Number (Fin 1))"
          and s = initial_state]
    by (simp add: value_of_def)
  have 6: "visit bare_host (BinOp ''=='' (Atom Null) (Atom Null)) initial_state
      = Inr (Boolean True, initial_state)"
    using comparison_uses_host_operators
        [OF m_Eq, where h = bare_host and a = "Atom Null" and b = "Atom Null"
          and s = initial_state]
    by (simp add: value_of_def)
  have 7: "visit bare_host (BinOp ''<'' (Atom Null) (Atom Null)) initial_state = Inl TypeError"
    using comparison_uses_host_operators
        [OF m_Lt, where h = bare_host and a = "Atom Null" and b = "Atom Null"
          and s = initial_state]
    by (simp add: value_of_def)
  have 8: "visit bare_host (BinOp ''=='' (Atom Print) (Assignment ''x'' (Atom Null)))
      initial_state = Inl AttributeError"
    using comparison_uses_host_operators
        [OF m_Eq, where h = bare_host and a = "Atom Print" and b = "Assignment ''x'' (Atom Null)"
          and s = initial_state]
    by (simp add: value_of_def)
  from 1 2 3 4 5 6 7 8 show ?thesis by (simp only: simp_thms)
qed

section \<open>Writes to an environment\<close>

lemma map_of_dict_set: "map_of (dict_set xs k v) = (map_of xs)(k \<mapsto> v)"
  by (induction xs k v rule: dict_set.induct) auto

lemma Env_setitem_locked:
  "key \<in> set (constants e) \<Longrightarrow> Env_setitem e key v = (e, [''You can't change a constant!''])"
  by (simp add: Env_setitem_def)

lemma Env_setitem_plain:
  "key \<notin> set (constants e) \<Longrightarrow> \<not> startswith key ''CONST_''
   \<Longrightarrow> Env_setitem e key v = (e\<lparr>items := dict_set (items e) key v\<rparr>, [])"
  by (simp add: Env_setitem_def)

subsection \<open>Assignment\<close>

text \<open>
  C7, as the claim states it, fails: an assignment to the locked name \<^verbatim>\<open>true\<close> does not
  return the value assigned (the Number 5) but the value the name keeps, and an
  assignment spelled with the constant prefix ends with the host's \<^verbatim>\<open>KeyError\<close>.
\<close>

theorem Assignment_to_locked_name:
  "visit bare_host (Assignment ''true'' (Atom (Number_init (Fin 5)))) initial_state
     = Inr (Boolean True, initial_state\<lparr>stdout := [''You can't change a constant!'']\<rparr>)
   \<and> visit bare_host (Assignment ''CONST_x'' (Atom (Number_init (Fin 5)))) initial_state
     = Inl (KeyError ''CONST_x'')"
  by (simp add: run_defs)

text \<open>
  C7, amended. For an Assignment node with a name \<open>n\<close> that is not spelled with the
  constant prefix and a value expression \<open>e\<close>, \<^verbatim>\<open>visit\<close> first reduces \<open>e\<close> to a value
  \<open>v\<close>, then writes to the top frame under \<open>n\<close>, and returns the value bound to \<open>n\<close>
  after the write. When \<open>n\<close> is not locked, the frame binds \<open>n\<close> to \<open>v\<close> and \<open>v\<close> is
  returned. When \<open>n\<close> is locked, the write is rejected: the frame is unchanged, the
  diagnostic is printed, and the value \<open>w\<close> that \<open>n\<close> keeps is returned.
\<close>

theorem Assignment_returns_bound_value:
  assumes "visit h e s = Inr (v, s1)" and "ENV_top s1 = Inr a"
    and "\<not> startswith n ''CONST_''"
  shows "(n \<notin> set (constants (heap s1 a)) \<longrightarrow>
            visit h (Assignment n e) s
              = Inr (v, s1\<lparr>heap := (heap s1)(a := (heap s1 a)
                                 \<lparr>items := dict_set (items (heap s1 a)) n v\<rparr>)\<rparr>)
            \<and> Env_getitem ((heap s1 a)\<lparr>items := dict_set (items (heap s1 a)) n v\<rparr>) n = Inr v)
       \<and> (n \<in> set (constants (heap s1 a)) \<longrightarrow>
            (\<forall>w. Env_getitem (heap s1 a) n = Inr w \<longrightarrow>
               visit h (Assignment n e) s
                 = Inr (w, s1\<lparr>stdout := stdout s1 @ [''You can't change a constant!'']\<rparr>)))"
proof -
  have get: "Env_getitem ((heap s1 a)\<lparr>items := dict_set (items (heap s1 a)) n v\<rparr>) n = Inr v"
    by (simp add: Env_getitem_def map_of_dict_set)
  have free: "visit h (Assignment n e) s
      = Inr (v, s1\<lparr>heap := (heap s1)(a := (heap s1 a)
                         \<lparr>items := dict_set (items (heap s1 a)) n v\<rparr>)\<rparr>)"
    if "n \<notin> set (constants (heap s1 a))"
    using assms that get
    by (simp add: ENV_setitem_def ENV_getitem_def ENV_top_def setitem_at_def Env_setitem_plain
        split: if_splits)
  have locked: "visit h (Assignment n e) s
      = Inr (w, s1\<lparr>stdout := stdout s1 @ [''You can't change a constant!'']\<rparr>)"
    if "n \<in> set (constants (heap s1 a))" and "Env_getitem (heap s1 a) n = Inr w" for w
    using assms that
    by (simp add: ENV_setitem_def ENV_getitem_def ENV_top_def setitem_at_def Env_setitem_locked
        split: if_splits)
  from get free locked show ?thesis by blast
qed

text \<open>An assignment to the unbound \<^verbatim>\<open>x\<close> and one to the locked \<^verbatim>\<open>false\<close>.\<close>

theorem Assignment_returns_bound_value_witness:
  "visit bare_host (Assignment ''x'' (Atom (Number (Fin 5)))) initial_state
     = Inr (Number (Fin 5), setitem_at 0 ''x'' (Number (Fin 5)) initial_state)
   \<and> ENV_getitem ''x'' (setitem_at 0 ''x'' (Number (Fin 5)) initial_state) = Inr (Number (Fin 5))
   \<and> visit bare_host (Assignment ''false'' (Atom (Number (Fin 5)))) initial_state
     = Inr (Boolean False, initial_state\<lparr>stdout := [''You can't change a constant!'']\<rparr>)"
proof -
  have v: "visit bare_host (Atom (Number (Fin 5))) initial_state
      = Inr (Number (Fin 5), initial_state)"
    by simp
  have a: "ENV_top initial_state = Inr 0" by (simp add: ENV_top_def initial_state_def)
  have x: "\<not> startswith ''x'' ''CONST_''" by (simp add: startswith_def)
  have f: "\<not> startswith ''false'' ''CONST_''" by (simp add: startswith_def)
  have 1: "visit bare_host (Assignment ''x'' (Atom (Number (Fin 5)))) initial_state
     = Inr (Number (Fin 5), setitem_at 0 ''x'' (Number (Fin 5)) initial_state)"
    using Assignment_returns_bound_value [OF v a x] by (simp add: run_defs)
  have 2: "ENV_getitem ''x'' (setitem_at 0 ''x'' (Number (Fin 5)) initial_state)
      = Inr (Number (Fin 5))"
    by (simp add: run_defs)
  have 3: "visit bare_host (Assignment ''false'' (Atom (Number (Fin 5)))) initial_state
     = Inr (Boolean False, initial_state\<lparr>stdout := [''You can't change a constant!'']\<rparr>)"
    using Assignment_returns_bound_value [OF v a f] by (simp add: run_defs)
  from 1 2 3 show ?thesis by (simp only: simp_thms)
qed

subsection \<open>Locked names\<close>

text \<open>
  C2. An environment in which \<^verbatim>\<open>x\<close> is locked with the value 1 rejects the write
  \<^verbatim>\<open>env["x"] = 2\<close>, but the write \<^verbatim>\<open>env["CONST_x"] = 2\<close> goes through: \<^verbatim>\<open>__setitem__\<close>
  looks for the key as it is spelled among the locked names, which are stored without
  the prefix. Afterwards \<^verbatim>\<open>env["x"]\<close> is 2.
\<close>

theorem locked_name_overwritten:
  "Env_init [(''CONST_x'', Number_init (Fin 1))]
     = (\<lparr>items = [(''x'', Number (Fin 1))], constants = [''x'']\<rparr>, [])
   \<and> Env_setitem \<lparr>items = [(''x'', Number (Fin 1))], constants = [''x'']\<rparr>
        ''CONST_x'' (Number_init (Fin 2))
     = (\<lparr>items = [(''x'', Number (Fin 2))], constants = [''x'', ''x'']\<rparr>, [])
   \<and> Env_getitem \<lparr>items = [(''x'', Number (Fin 2))], constants = [''x'', ''x'']\<rparr> ''x''
     = Inr (Number (Fin 2))
   \<and> Env_setitem \<lparr>items = [(''x'', Number (Fin 1))], constants = [''x'']\<rparr>
        ''x'' (Number_init (Fin 2))
     = (\<lparr>items = [(''x'', Number (Fin 1))], constants = [''x'']\<rparr>,
        [''You can't change a constant!''])"
  by (simp add: Env_init_def empty_env_def Env_setitem_def Env_getitem_def startswith_def
      removeprefix_def Number_init_def)

section \<open>Closures\<close>

subsection \<open>Reduction writes to the top frame only\<close>

lemma ENV_setitem_frame:
  "ENV_setitem n v s = Inr s' \<Longrightarrow>
     ENV s' = ENV s \<and> fresh s' = fresh s \<and> (\<forall>b. b \<noteq> last (ENV s) \<longrightarrow> heap s' b = heap s b)"
  by (auto simp: ENV_setitem_def ENV_top_def setitem_at_def split: if_splits)

text \<open>
  \<^verbatim>\<open>visit\<close> leaves the list \<^verbatim>\<open>ENV\<close> as it is, creates no environment, and changes no
  environment other than \<^verbatim>\<open>ENV[-1]\<close>.
\<close>

lemma visit_frame:
  "visit h e s = Inr (v, s') \<Longrightarrow>
     ENV s' = ENV s \<and> fresh s' = fresh s \<and> (\<forall>b. b \<noteq> last (ENV s) \<longrightarrow> heap s' b = heap s b)"
proof (induction h e s arbitrary: v s' rule: visit.induct)
  case (1 h v s)
  then show ?case by simp
next
  case (2 h op right left s)
  from "2.prems" obtain f where f: "OP_TO_FUNC_MAP op = Some f"
    by (auto split: option.splits)
  from "2.prems" f obtain r s1 where r: "visit h right s = Inr (r, s1)"
    by (auto split: sum.splits)
  note fr1 = "2.IH"(1) [OF f r]
  show ?case
  proof (cases "s' = s1")
    case True
    with fr1 show ?thesis by simp
  next
    case False
    with "2.prems" f r obtain l where l: "visit h left s1 = Inr (l, s')"
      by (auto split: sum.splits if_splits)
    have "ENV s' = ENV s1 \<and> fresh s' = fresh s1
        \<and> (\<forall>b. b \<noteq> last (ENV s1) \<longrightarrow> heap s' b = heap s1 b)"
    proof (cases "is_arith f")
      case True
      from "2.IH"(2) [OF f r refl True l] show ?thesis .
    next
      case na: False
      from "2.prems" f r na obtain p where p: "value_of r = Inr p"
        by (auto split: sum.splits)
      from "2.prems" f r na p False have c1: "\<not> (f = And \<and> \<not> truthy p)"
        by (auto split: sum.splits if_splits)
      from "2.prems" f r na p False c1 have c2: "\<not> (f = Or \<and> truthy p)"
        by (auto split: sum.splits if_splits)
      from "2.IH"(3) [OF f r refl na p c1 c2 l] show ?thesis .
    qed
    with fr1 show ?thesis by simp
  qed
next
  case (3 h condition true_block false_block s)
  from "3.prems" obtain c s1 where c: "visit h condition s = Inr (c, s1)"
    by (auto split: sum.splits)
  from "3.prems" c obtain p where p: "value_of c = Inr p"
    by (auto split: sum.splits)
  note fr1 = "3.IH"(1) [OF c]
  have "ENV s' = ENV s1 \<and> fresh s' = fresh s1
      \<and> (\<forall>b. b \<noteq> last (ENV s1) \<longrightarrow> heap s' b = heap s1 b)"
  proof (cases "py_eq p (PBool True)")
    case True
    with "3.prems" c p have "visit h true_block s1 = Inr (v, s')" by simp
    from "3.IH"(2) [OF c refl p True this] show ?thesis .
  next
    case False
    with "3.prems" c p have "visit h false_block s1 = Inr (v, s')" by simp
    from "3.IH"(3) [OF c refl p False this] show ?thesis .
  qed
  with fr1 show ?case by simp
next
  case (4 h name "value" s)
  from "4.prems" obtain w s1 where w: "visit h value s = Inr (w, s1)"
    by (auto split: sum.splits)
  from "4.prems" w have "ENV_setitem name w s1 = Inr s'"
    by (auto split: sum.splits)
  from ENV_setitem_frame [OF this] "4.IH" [OF w] show ?case by simp
next
  case (5 h e s)
  then show ?case by simp
qed

subsection \<open>Filling a new environment\<close>

lemma dict_set_new: "k \<notin> fst ` set xs \<Longrightarrow> dict_set xs k v = xs @ [(k, v)]"
  by (induction xs k v rule: dict_set.induct) auto

lemma Env_fill_plain:
  "constants e = [] \<Longrightarrow> distinct (map fst kws) \<Longrightarrow> fst ` set kws \<inter> fst ` set (items e) = {}
   \<Longrightarrow> list_all (\<lambda>k. \<not> startswith k ''CONST_'') (map fst kws)
   \<Longrightarrow> Env_fill (e, out) kws = (e\<lparr>items := items e @ kws\<rparr>, out)"
proof (induction kws arbitrary: e out)
  case Nil
  then show ?case by simp
next
  case (Cons kv kws)
  obtain k v where kv: "kv = (k, v)" by (cases kv)
  from Cons.prems kv have k: "k \<notin> fst ` set (items e)" "\<not> startswith k ''CONST_''"
    by auto
  with Cons.prems have step: "Env_setitem e k v = (e\<lparr>items := items e @ [(k, v)]\<rparr>, [])"
    by (simp add: Env_setitem_def dict_set_new)
  have "Env_fill (e\<lparr>items := items e @ [(k, v)]\<rparr>, out) kws
      = (e\<lparr>items := items e @ [(k, v)]\<rparr>
           \<lparr>items := items (e\<lparr>items := items e @ [(k, v)]\<rparr>) @ kws\<rparr>, out)"
    using Cons.prems kv by (intro Cons.IH) auto
  then show ?case using kv step by simp
qed

lemma set_first_occurrences: "set (first_occurrences xs) = set xs"
  by (simp add: first_occurrences_def)

lemma distinct_first_occurrences: "distinct (first_occurrences xs)"
  by (simp add: first_occurrences_def)

lemma fold_setitem_other:
  "b \<noteq> a \<Longrightarrow> heap (fold (\<lambda>(k, v). setitem_at a k v) kvs s) b = heap s b"
  by (induction kvs arbitrary: s) (auto simp: setitem_at_def)

lemma Env_init_plain:
  assumes "distinct (map fst kws)"
    and "list_all (\<lambda>k. \<not> startswith k ''CONST_'') (map fst kws)"
  shows "Env_init kws = (\<lparr>items = kws, constants = []\<rparr>, [])"
  using Env_fill_plain [of empty_env kws "[]"] assms by (simp add: Env_init_def empty_env_def)

lemma map_of_params:
  "map_of (map (\<lambda>p. (p, Null)) ps) k = (if k \<in> set ps then Some Null else None)"
  by (induction ps) auto

subsection \<open>The environment a function captures\<close>

text \<open>
  A function with a parameter named \<^verbatim>\<open>self\<close>, and any function defined in a frame that
  binds \<^verbatim>\<open>self\<close>, cannot be constructed.
\<close>

lemma UserDefinedFunction_init_self:
  assumes "ENV_top s = Inr a" and "''self'' \<in> fst ` set (items (heap s a)) \<union> set args"
  shows "UserDefinedFunction_init args body s = Inl TypeError"
proof -
  let ?kws = "items (heap s a) @ map (\<lambda>p. (p, Null)) (first_occurrences args)"
  have "fst ` set ?kws = fst ` set (items (heap s a)) \<union> set args"
    by (force simp: set_first_occurrences)
  with assms(2) have "Env_new ?kws = Inl TypeError"
    by (simp add: Env_new_def)
  with assms(1) show ?thesis
    by (simp add: UserDefinedFunction_init_def)
qed

text \<open>
  C8, amended. Let the defining (top) frame have no key spelled with the constant
  prefix, and let no declared parameter be spelled with it or be bound in the frame
  already; let neither a key of the frame nor a parameter be the name \<^verbatim>\<open>self\<close>. Then
  constructing a UserDefined function succeeds and captures a new
  environment whose bindings are those of the defining frame at that moment followed
  by a Null binding for each declared parameter (a name declared twice is bound once),
  with no name locked: a lookup gives Null for a parameter and what the defining frame
  gives for any other name. The defining frame itself is unchanged by the construction.
  Every write made to the defining frame afterwards, directly or by reducing any
  expression while that frame is the top one, leaves the captured environment
  unchanged.
\<close>

theorem closure_snapshot_isolated:
  assumes top: "ENV_top s = Inr a"
    and live: "a < fresh s"
    and keys: "distinct (map fst (items (heap s a)))"
    and new_params: "set args \<inter> fst ` set (items (heap s a)) = {}"
    and plain: "list_all (\<lambda>k. \<not> startswith k ''CONST_'') (map fst (items (heap s a)) @ args)"
    and no_self: "''self'' \<notin> fst ` set (items (heap s a)) \<union> set args"
  shows "\<exists>s1. UserDefinedFunction_init args body s
               = Inr (UserDefinedFunction (fresh s) args body, s1)
      \<and> heap s1 (fresh s)
          = \<lparr>items = items (heap s a) @ map (\<lambda>p. (p, Null)) (first_occurrences args),
             constants = []\<rparr>
      \<and> (\<forall>k. Env_getitem (heap s1 (fresh s)) k
               = (if k \<in> set args then Inr Null else Env_getitem (heap s a) k))
      \<and> heap s1 a = heap s a \<and> ENV_top s1 = Inr a
      \<and> (\<forall>kvs. heap (fold (\<lambda>(k, v). setitem_at a k v) kvs s1) (fresh s) = heap s1 (fresh s))
      \<and> (\<forall>h e v s2. visit h e s1 = Inr (v, s2) \<longrightarrow> heap s2 (fresh s) = heap s1 (fresh s))"
proof -
  let ?kws = "items (heap s a) @ map (\<lambda>p. (p, Null)) (first_occurrences args)"
  let ?c = "\<lparr>items = ?kws, constants = []\<rparr>"
  let ?s1 = "s\<lparr>heap := (heap s)(fresh s := ?c), fresh := Suc (fresh s)\<rparr>"
  have d: "distinct (map fst ?kws)"
    using keys new_params
    by (auto simp: comp_def distinct_first_occurrences set_first_occurrences)
  have p: "list_all (\<lambda>k. \<not> startswith k ''CONST_'') (map fst ?kws)"
    using plain by (auto simp: list_all_iff set_first_occurrences)
  have "Env_init ?kws = (?c, [])"
    using d p by (rule Env_init_plain)
  moreover have "''self'' \<notin> fst ` set ?kws"
    using no_self by (auto simp: set_first_occurrences)
  ultimately have init: "Env_new ?kws = Inr (?c, [])"
    by (simp add: Env_new_def)
  have 1: "UserDefinedFunction_init args body s = Inr (UserDefinedFunction (fresh s) args body, ?s1)"
    using top new_params by (simp add: UserDefinedFunction_init_def init)
  have ne: "fresh s \<noteq> a" using live by simp
  have 2: "heap ?s1 (fresh s) = ?c" by simp
  have 3: "Env_getitem (heap ?s1 (fresh s)) k
             = (if k \<in> set args then Inr Null else Env_getitem (heap s a) k)" for k
  proof (cases "k \<in> set args")
    case True
    with new_params have "k \<notin> fst ` set (items (heap s a))" by blast
    then have "map_of (items (heap s a)) k = None" by (simp add: map_of_eq_None_iff)
    with True show ?thesis
      by (simp add: Env_getitem_def map_of_params set_first_occurrences map_add_def)
  next
    case False
    then show ?thesis
      by (simp add: Env_getitem_def map_of_params set_first_occurrences map_add_def
          split: option.splits)
  qed
  have 4: "heap ?s1 a = heap s a" using ne by simp
  have 5: "ENV_top ?s1 = Inr a"
    using top by (cases "ENV s = []") (simp_all add: ENV_top_def)
  have 6: "heap (fold (\<lambda>(k, v). setitem_at a k v) kvs ?s1) (fresh s) = heap ?s1 (fresh s)" for kvs
    using ne by (rule fold_setitem_other)
  have 7: "heap s2 (fresh s) = heap ?s1 (fresh s)" if "visit h e ?s1 = Inr (v, s2)" for h e v s2
  proof -
    from top have "last (ENV ?s1) = a"
      by (cases "ENV s = []") (simp_all add: ENV_top_def)
    with visit_frame [OF that] ne show ?thesis by auto
  qed
  from 1 2 3 4 5 6 7 show ?thesis by blast
qed

text \<open>
  C8, as the claim states it, fails. The bindings of the new environment go through
  \<^verbatim>\<open>Env.__setitem__\<close>: a parameter declared as \<^verbatim>\<open>CONST_b\<close> gets no binding under that
  name, it is bound as \<^verbatim>\<open>b\<close> and locked. And with a parameter that the defining frame
  binds already (here \<^verbatim>\<open>true\<close>) nothing is captured at all: the host refuses the
  repeated keyword with \<^verbatim>\<open>TypeError\<close>.
\<close>

theorem closure_reinterprets_prefixed_names:
  "(case UserDefinedFunction_init [''CONST_b''] (Atom Null) initial_state of
      Inl e \<Rightarrow> None
    | Inr (f, s1) \<Rightarrow>
        Some (Env_getitem (heap s1 1) ''CONST_b'', Env_getitem (heap s1 1) ''b'',
              constants (heap s1 1)))
     = Some (Inl (KeyError ''CONST_b''), Inr Null, [''b''])
   \<and> UserDefinedFunction_init [''true''] (Atom Null) initial_state = Inl TypeError"
  by (simp add: UserDefinedFunction_init_def first_occurrences_def Env_new_def Env_init_def
      empty_env_def builtins_def run_defs)

text \<open>
  A function of the parameter \<^verbatim>\<open>n\<close>, declared twice, defined in the initial frame: its
  environment binds \<^verbatim>\<open>n\<close> to Null and \<^verbatim>\<open>true\<close> as the frame does; after \<^verbatim>\<open>y\<close> is
  written to the frame, the frame binds \<^verbatim>\<open>y\<close> and the function's environment does not.
\<close>

theorem closure_snapshot_isolated_witness:
  "(case UserDefinedFunction_init [''n'', ''n''] (Atom Null) initial_state of
      Inl e \<Rightarrow> False
    | Inr (f, s1) \<Rightarrow>
        f = UserDefinedFunction 1 [''n'', ''n''] (Atom Null)
        \<and> Env_getitem (heap s1 1) ''n'' = Inr Null
        \<and> Env_getitem (heap s1 1) ''true'' = Inr (Boolean True)
        \<and> ENV_getitem ''y'' (setitem_at 0 ''y'' (Number (Fin 2)) s1) = Inr (Number (Fin 2))
        \<and> Env_getitem (heap (setitem_at 0 ''y'' (Number (Fin 2)) s1) 1) ''y''
            = Inl (KeyError ''y''))"
proof -
  have top: "ENV_top initial_state = Inr 0" by (simp add: run_defs)
  have live: "0 < fresh initial_state" by (simp add: run_defs)
  have keys: "distinct (map fst (items (heap initial_state 0)))" by (simp add: run_defs)
  have new_params: "set [''n'', ''n''] \<inter> fst ` set (items (heap initial_state 0)) = {}"
    by (simp add: run_defs)
  have plain: "list_all (\<lambda>k. \<not> startswith k ''CONST_'')
      (map fst (items (heap initial_state 0)) @ [''n'', ''n''])"
    by (simp add: run_defs)
  have no_self: "''self'' \<notin> fst ` set (items (heap initial_state 0)) \<union> set [''n'', ''n'']"
    by (simp add: run_defs)
  from closure_snapshot_isolated [OF top live keys new_params plain no_self, of "Atom Null"]
  obtain s1 where
    1: "UserDefinedFunction_init [''n'', ''n''] (Atom Null) initial_state
          = Inr (UserDefinedFunction (fresh initial_state) [''n'', ''n''] (Atom Null), s1)"
    and 3: "\<And>k. Env_getitem (heap s1 (fresh initial_state)) k
               = (if k \<in> set [''n'', ''n''] then Inr Null
                  else Env_getitem (heap initial_state 0) k)"
    and 4: "heap s1 0 = heap initial_state 0"
    and 5: "ENV_top s1 = Inr 0"
    and 6: "\<And>kvs. heap (fold (\<lambda>(k, v). setitem_at 0 k v) kvs s1) (fresh initial_state)
               = heap s1 (fresh initial_state)"
    by blast
  have fr: "fresh initial_state = 1" by (simp add: run_defs)
  have a: "Env_getitem (heap s1 1) ''n'' = Inr Null" using 3 [of "''n''"] fr by simp
  have b: "Env_getitem (heap s1 1) ''true'' = Inr (Boolean True)"
    using 3 [of "''true''"] fr by (simp add: run_defs)
  have c: "ENV_getitem ''y'' (setitem_at 0 ''y'' (Number (Fin 2)) s1) = Inr (Number (Fin 2))"
    using 4 5
    by (simp add: ENV_getitem_def ENV_top_def setitem_at_def Env_setitem_def Env_getitem_def
        startswith_def map_of_dict_set initial_state_def init_env split: if_splits)
  have d: "Env_getitem (heap (setitem_at 0 ''y'' (Number (Fin 2)) s1) 1) ''y''
      = Inl (KeyError ''y'')"
    using 6 [of "[(''y'', Number (Fin 2))]"] 3 [of "''y''"] fr by (simp add: run_defs)
  from 1 fr a b c d show ?thesis by simp
qed

end
